theory Spec2Isabelle
  imports Complex_Main "HOL-Library.Word"
begin

unbundle bit_operations_syntax

section \<open>JavaScript values\<close>

text \<open>
  The server is a Node/Express program.  The values it handles are the ones JavaScript
  gives it: query parameters, session properties and parsed JSON bodies.  A string is a
  list of code units; a JSON number is the rational it denotes; an object is the list of
  its own properties, each name once, as \<open>JSON.parse\<close> builds it.
\<close>

datatype jsval =
    JUndefined
  | JNull
  | JBool bool
  | JNum rat
  | JStr string
  | JArr "jsval list"
  | JObj "(string \<times> jsval) list"

text \<open>
  A value of \<open>req.query\<close>: Express's query parser yields a string, or an array or a
  nested object for a repeated or bracketed key (\<open>?state=a&state=b\<close>,
  \<open>?state[k]=a\<close>); an absent key reads as \<open>undefined\<close>.
\<close>

datatype qval =
    QUndefined
  | QString string
  | QArray "qval list"
  | QObject "(string \<times> qval) list"

fun js_of :: "qval \<Rightarrow> jsval" where
  "js_of QUndefined = JUndefined"
| "js_of (QString s) = JStr s"
| "js_of (QArray xs) = JArr (map js_of xs)"
| "js_of (QObject kvs) = JObj (map (map_prod id js_of) kvs)"

text \<open>Truthiness, as tested by \<open>if (v)\<close>, \<open>!v\<close>, \<open>a && b\<close> and \<open>a || b\<close>.\<close>

fun truthy :: "jsval \<Rightarrow> bool" where
  "truthy JUndefined = False"
| "truthy JNull = False"
| "truthy (JBool b) = b"
| "truthy (JNum n) = (n \<noteq> 0)"
| "truthy (JStr s) = (s \<noteq> [])"
| "truthy (JArr xs) = True"
| "truthy (JObj kvs) = True"

fun truthy_q :: "qval \<Rightarrow> bool" where
  "truthy_q QUndefined = False"
| "truthy_q (QString s) = (s \<noteq> [])"
| "truthy_q (QArray xs) = True"
| "truthy_q (QObject kvs) = True"

text \<open>
  \<open>state === req.session.oauthState\<close>: a query value against a session value.  Primitives
  compare by value; an array or object of the query is a fresh object of this request and
  is identical to nothing the session holds.
\<close>

fun strict_eq :: "qval \<Rightarrow> jsval \<Rightarrow> bool" where
  "strict_eq QUndefined JUndefined = True"
| "strict_eq (QString a) (JStr b) = (a = b)"
| "strict_eq _ _ = False"

text \<open>\<open>a || b\<close>\<close>

definition or_js :: "jsval \<Rightarrow> jsval \<Rightarrow> jsval" where
  "or_js a b = (if truthy a then a else b)"

definition nullish :: "jsval \<Rightarrow> bool" where
  "nullish v = (v = JUndefined \<or> v = JNull)"

text \<open>
  \<open>v.k\<close> for the property names the server reads from a parsed JSON body (\<open>error\<close>,
  \<open>message\<close>, \<open>access_token\<close>, \<open>refresh_token\<close>, \<open>expires_in\<close>, \<open>user\<close>): an own
  property of an object, \<open>undefined\<close> on any other value.  Reading a property of
  \<open>null\<close> or \<open>undefined\<close> throws; the handlers test \<open>nullish\<close> before they use \<open>jsprop\<close>.
\<close>

fun jsprop :: "jsval \<Rightarrow> string \<Rightarrow> jsval" where
  "jsprop (JObj kvs) k = (case map_of kvs k of Some v \<Rightarrow> v | None \<Rightarrow> JUndefined)"
| "jsprop _ k = JUndefined"

text \<open>\<open>s.endsWith(t)\<close> on strings.\<close>

definition endsWith :: "string \<Rightarrow> string \<Rightarrow> bool" where
  "endsWith s t = (length t \<le> length s \<and> drop (length s - length t) s = t)"

datatype exn = TypeError | SyntaxError | FetchError

text \<open>
  \<open>state?.endsWith(':popup')\<close>: \<open>undefined\<close> (falsy) on an absent parameter, the suffix
  test on a string, and a \<open>TypeError\<close> on an array or object, which has no such method.
\<close>

fun ends_with_popup :: "qval \<Rightarrow> exn + bool" where
  "ends_with_popup QUndefined = Inr False"
| "ends_with_popup (QString s) = Inr (endsWith s '':popup'')"
| "ends_with_popup _ = Inl TypeError"

text \<open>
  \<open>v?.substring(0, 20) + '...'\<close>, the token preview of the log line: \<open>undefined + '...'\<close>
  on a nullish value, a \<open>TypeError\<close> on a value that is neither nullish nor a string.
\<close>

fun preview :: "jsval \<Rightarrow> exn + string" where
  "preview JUndefined = Inr ''undefined...''"
| "preview JNull = Inr ''undefined...''"
| "preview (JStr s) = Inr (take 20 s @ ''...'')"
| "preview _ = Inl TypeError"

text \<open>A template literal: its literal pieces and the values it interpolates.\<close>

datatype part = Lit string | Interp jsval

text \<open>
  A template literal converts each value it interpolates with \<open>ToString\<close>.  That succeeds
  on every primitive.  An object is converted by its \<open>toString\<close> method, the inherited
  \<open>Object.prototype.toString\<close> unless the object has an own property of that name; in a
  parsed JSON body or a parsed query an own \<open>toString\<close> is never a function, no method
  yields a primitive, and the conversion throws a \<open>TypeError\<close>.  An array is converted by
  joining its elements, each converted in the same way.
\<close>

fun stringifies :: "jsval \<Rightarrow> bool" where
  "stringifies (JObj kvs) = (map_of kvs ''toString'' = None)"
| "stringifies (JArr xs) = list_all stringifies xs"
| "stringifies v = True"

fun interpolates :: "part \<Rightarrow> bool" where
  "interpolates (Lit s) = True"
| "interpolates (Interp v) = stringifies v"

text \<open>Evaluating a template literal: its parts, or the \<open>TypeError\<close> of a conversion.\<close>

definition template :: "part list \<Rightarrow> exn + part list" where
  "template ps = (if list_all interpolates ps then Inr ps else Inl TypeError)"

section \<open>Configuration, session, requests and responses\<close>

record config =
  INSFORGE_CLIENT_ID :: string
  INSFORGE_CLIENT_SECRET :: string
  INSFORGE_URL :: string
  CALLBACK_URL :: string
  SCOPES :: string

text \<open>\<open>req.session\<close>: a property that is absent reads as \<open>JUndefined\<close>.\<close>

record session =
  oauthState :: jsval
  codeVerifier :: jsval
  accessToken :: jsval
  refreshToken :: jsval
  user :: jsval

text \<open>\<open>req.query\<close>, the four parameters the callbacks destructure.\<close>

record query =
  q_code :: qval
  q_state :: qval
  q_error :: qval
  q_error_description :: qval

text \<open>A parsed \<open>URL\<close> object: what precedes the query, the search parameters, the fragment.\<close>

record url =
  href_base :: string
  searchParams :: "(string \<times> string) list"
  fragment :: string

text \<open>An outbound \<open>fetch\<close>; the body is the object handed to \<open>JSON.stringify\<close>.\<close>

record request =
  req_url :: string
  req_method :: string
  req_headers :: "(string \<times> part list) list"
  req_body :: "jsval option"

text \<open>
  What a \<open>fetch\<close> gives: a rejection (network failure), or a response with its status
  and the result of \<open>response.json()\<close>, \<open>None\<close> when the body is not JSON.
\<close>

datatype fetch_result = NetworkError | Response nat "jsval option"

definition ok :: "nat \<Rightarrow> bool" where
  "ok status = (200 \<le> status \<and> status \<le> 299)"

text \<open>The world outside the process: the servers \<open>fetch\<close> reaches and the \<open>URL\<close> parser.\<close>

record world =
  fetch :: "request \<Rightarrow> fetch_result"
  new_URL :: "string \<Rightarrow> url option"

datatype body =
    Text "part list"
  | AuthorizationFailed "part list"
  | AuthorizationComplete

datatype location = Path string | Url url

text \<open>
  What the handler answers.  \<open>Rejected e\<close>: the handler threw \<open>e\<close> outside any \<open>try\<close>
  and wrote no response itself.
\<close>

datatype response =
    Send nat body
  | Redirect location
  | Json nat jsval
  | Rejected exn

text \<open>
  What a run does besides answering: the lines it logs (the label and the values logged
  with it) and the calls it makes with \<open>fetch\<close>, in their order.
\<close>

datatype event =
    ConsoleLog string "jsval list"
  | ConsoleError string "jsval list"
  | ConsoleErrorExn string exn
  | ConsoleLogUrl string url
  | Fetch request

record outcome =
  resp :: response
  sess :: session
  events :: "event list"

text \<open>The outbound calls among the events of a run.\<close>

fun fetches :: "event list \<Rightarrow> request list" where
  "fetches [] = []"
| "fetches (Fetch r # es) = r # fetches es"
| "fetches (_ # es) = fetches es"

text \<open>The result of a \<open>try\<close> block: it threw, or it reached a \<open>return\<close> or its end.\<close>

datatype completion = Thrown exn | Returned response

section \<open>The platform's encodings and SHA-256\<close>

text \<open>
  \<open>crypto.randomBytes(n)\<close> gives a buffer of bytes; \<open>buf.toString('hex')\<close> and
  \<open>buf.toString('base64url')\<close> encode it; \<open>crypto.createHash('sha256')\<close> is SHA-256
  (FIPS 180-4).  These are Node's, not the repository's; they are written out so that the
  helpers built on them compute.
\<close>

type_synonym byte = "8 word"
type_synonym word32 = "32 word"

text \<open>\<open>hash.update(s)\<close> of a string hashes its UTF-8 bytes; a \<open>char\<close> is one such byte.\<close>

definition utf8 :: "string \<Rightarrow> byte list" where
  "utf8 s = map of_char s"

text \<open>\<open>toString('hex')\<close>: two lower-case digits per byte.\<close>

definition hex_digit :: "nat \<Rightarrow> char" where
  "hex_digit n = ''0123456789abcdef'' ! n"

definition to_hex :: "byte list \<Rightarrow> string" where
  "to_hex bs = concat (map (\<lambda>b. [hex_digit (unat b div 16), hex_digit (unat b mod 16)]) bs)"

text \<open>
  \<open>toString('base64url')\<close>: RFC 4648 section 5, the alphabet ending in \<open>-\<close> and \<open>_\<close>,
  six bits per character, no padding.
\<close>

definition base64url_alphabet :: string where
  "base64url_alphabet = ''ABCDEFGHIJKLMNOPQRSTUVWXYZabcdefghijklmnopqrstuvwxyz0123456789-_''"

definition b64u :: "nat \<Rightarrow> char" where
  "b64u i = base64url_alphabet ! i"

fun base64url :: "byte list \<Rightarrow> string" where
  "base64url (a # b # c # bs) =
     [b64u (unat a div 4), b64u (unat a mod 4 * 16 + unat b div 16),
      b64u (unat b mod 16 * 4 + unat c div 64), b64u (unat c mod 64)] @ base64url bs"
| "base64url [a, b] =
     [b64u (unat a div 4), b64u (unat a mod 4 * 16 + unat b div 16), b64u (unat b mod 16 * 4)]"
| "base64url [a] = [b64u (unat a div 4), b64u (unat a mod 4 * 16)]"
| "base64url [] = []"

text \<open>
  SHA-256 as FIPS 180-4 defines it, on 32-bit words (\<open>+\<close> wraps).  The rotation and
  the six functions of section 4.1.2:
\<close>

definition rotr :: "nat \<Rightarrow> word32 \<Rightarrow> word32" where
  "rotr n x = drop_bit n x OR push_bit (32 - n) x"

definition Ch :: "word32 \<Rightarrow> word32 \<Rightarrow> word32 \<Rightarrow> word32" where
  "Ch x y z = (x AND y) XOR (NOT x AND z)"

definition Maj :: "word32 \<Rightarrow> word32 \<Rightarrow> word32 \<Rightarrow> word32" where
  "Maj x y z = (x AND y) XOR (x AND z) XOR (y AND z)"

definition Sigma0 :: "word32 \<Rightarrow> word32" where
  "Sigma0 x = rotr 2 x XOR rotr 13 x XOR rotr 22 x"

definition Sigma1 :: "word32 \<Rightarrow> word32" where
  "Sigma1 x = rotr 6 x XOR rotr 11 x XOR rotr 25 x"

definition sigma0 :: "word32 \<Rightarrow> word32" where
  "sigma0 x = rotr 7 x XOR rotr 18 x XOR drop_bit 3 x"

definition sigma1 :: "word32 \<Rightarrow> word32" where
  "sigma1 x = rotr 17 x XOR rotr 19 x XOR drop_bit 10 x"

text \<open>
  The sixty-four round constants of section 4.2.2, in decimal (the first is
  \<open>0x428a2f98\<close>), and the initial hash value of section 5.3.3.
\<close>

definition K256 :: "word32 list" where
  "K256 =
    [1116352408, 1899447441, 3049323471, 3921009573, 961987163, 1508970993,
     2453635748, 2870763221, 3624381080, 310598401, 607225278, 1426881987,
     1925078388, 2162078206, 2614888103, 3248222580, 3835390401, 4022224774,
     264347078, 604807628, 770255983, 1249150122, 1555081692, 1996064986,
     2554220882, 2821834349, 2952996808, 3210313671, 3336571891, 3584528711,
     113926993, 338241895, 666307205, 773529912, 1294757372, 1396182291,
     1695183700, 1986661051, 2177026350, 2456956037, 2730485921, 2820302411,
     3259730800, 3345764771, 3516065817, 3600352804, 4094571909, 275423344,
     430227734, 506948616, 659060556, 883997877, 958139571, 1322822218,
     1537002063, 1747873779, 1955562222, 2024104815, 2227730452, 2361852424,
     2428436474, 2756734187, 3204031479, 3329325298]"

definition H256 :: "word32 list" where
  "H256 = [0x6a09e667, 0xbb67ae85, 0x3c6ef372, 0xa54ff53a,
           0x510e527f, 0x9b05688c, 0x1f83d9ab, 0x5be0cd19]"

text \<open>
  Padding (section 5.1.1): the byte \<open>0x80\<close>, zero bytes up to 56 modulo 64, and the
  length in bits as eight bytes, most significant first.  Then the message is read as
  big-endian words, sixteen to a block.
\<close>

definition length_bytes :: "nat \<Rightarrow> byte list" where
  "length_bytes n =
     [of_nat (n div 2 ^ 56), of_nat (n div 2 ^ 48), of_nat (n div 2 ^ 40), of_nat (n div 2 ^ 32),
      of_nat (n div 2 ^ 24), of_nat (n div 2 ^ 16), of_nat (n div 2 ^ 8), of_nat n]"

definition sha_pad :: "byte list \<Rightarrow> byte list" where
  "sha_pad m = m @ [0x80] @ replicate ((64 - (length m + 9) mod 64) mod 64) 0
                 @ length_bytes (8 * length m)"

fun be_words :: "byte list \<Rightarrow> word32 list" where
  "be_words (a # b # c # d # bs) =
     (push_bit 24 (ucast a) OR push_bit 16 (ucast b) OR push_bit 8 (ucast c) OR ucast d)
       # be_words bs"
| "be_words _ = []"

fun blocks16 :: "word32 list \<Rightarrow> word32 list list" where
  "blocks16 [] = []"
| "blocks16 (w # ws) = take 16 (w # ws) # blocks16 (drop 15 ws)"

text \<open>
  The message schedule (section 6.2.2, step 1) as a window of sixteen words: its head is
  \<open>W\<^sub>t\<close>, and the window moves on by appending \<open>W\<^sub>t\<^sub>+\<^sub>1\<^sub>6\<close>.  One round (step 3) for each
  constant, and the block's result added to the hash value (step 4).
\<close>

fun next_window :: "word32 list \<Rightarrow> word32 list" where
  "next_window [w0, w1, w2, w3, w4, w5, w6, w7, w8, w9, w10, w11, w12, w13, w14, w15] =
     [w1, w2, w3, w4, w5, w6, w7, w8, w9, w10, w11, w12, w13, w14, w15,
      sigma1 w14 + w9 + sigma0 w1 + w0]"
| "next_window ws = ws"

fun sha_round :: "word32 \<Rightarrow> word32 \<Rightarrow> word32 list \<Rightarrow> word32 list" where
  "sha_round k w [a, b, c, d, e, f, g, h] =
     (let t1 = h + Sigma1 e + Ch e f g + k + w;
          t2 = Sigma0 a + Maj a b c
      in [t1 + t2, a, b, c, d + t1, e, f, g])"
| "sha_round k w st = st"

fun rounds :: "word32 list \<Rightarrow> word32 list \<Rightarrow> word32 list \<Rightarrow> word32 list" where
  "rounds [] ws st = st"
| "rounds (k # ks) ws st = rounds ks (next_window ws) (sha_round k (hd ws) st)"

definition compress :: "word32 list \<Rightarrow> word32 list \<Rightarrow> word32 list" where
  "compress block hs = map2 (+) hs (rounds K256 block hs)"

text \<open>The digest: the eight words of the final hash value, most significant byte first.\<close>

definition word_bytes :: "word32 \<Rightarrow> byte list" where
  "word_bytes w = [ucast (drop_bit 24 w), ucast (drop_bit 16 w), ucast (drop_bit 8 w), ucast w]"

definition sha256 :: "byte list \<Rightarrow> byte list" where
  "sha256 m = concat (map word_bytes (fold compress (blocks16 (be_words (sha_pad m))) H256))"

text \<open>
  \<open>reduce32\<close> is the identity on words.  Rewriting with it keeps the numerals of a
  concrete computation below \<open>2\<^sup>3\<^sup>2\<close> while a digest is evaluated.
\<close>

definition reduce32 :: "word32 \<Rightarrow> word32" where
  "reduce32 x = word_of_nat (unat x)"

section \<open>PKCE helpers\<close>

text \<open>
  Lines 65--81.  The random bytes are an input: \<open>generateCodeVerifier\<close> receives the
  result of \<open>crypto.randomBytes(32)\<close>, \<open>generateState\<close> that of \<open>crypto.randomBytes(16)\<close>.
  Nothing below depends on how many bytes there are.
\<close>

definition generateCodeVerifier :: "byte list \<Rightarrow> string" where
  "generateCodeVerifier randomBytes32 = base64url randomBytes32"

definition generateCodeChallenge :: "string \<Rightarrow> string" where
  "generateCodeChallenge verifier = base64url (sha256 (utf8 verifier))"

definition generateState :: "byte list \<Rightarrow> string" where
  "generateState randomBytes16 = to_hex randomBytes16"

section \<open>Starting the flow\<close>

text \<open>
  \<open>url.searchParams.set(name, value)\<close>: the first pair of that name takes the value and
  the others of that name are removed; without one, the pair is appended.
  \<open>searchParams.get(name)\<close> is the value of the first pair of that name.
\<close>

fun sp_set :: "(string \<times> string) list \<Rightarrow> string \<Rightarrow> string \<Rightarrow> (string \<times> string) list" where
  "sp_set [] k v = [(k, v)]"
| "sp_set ((k', v') # ps) k v =
     (if k' = k then (k, v) # filter (\<lambda>p. fst p \<noteq> k) ps else (k', v') # sp_set ps k v)"

definition sp_get :: "(string \<times> string) list \<Rightarrow> string \<Rightarrow> string option" where
  "sp_get ps k = map_of ps k"

definition set_param :: "string \<Rightarrow> string \<Rightarrow> url \<Rightarrow> url" where
  "set_param k v u = u\<lparr>searchParams := sp_set (searchParams u) k v\<rparr>"

text \<open>The seven \<open>searchParams.set\<close> calls of lines 566--572 and 597--603, in their order.\<close>

definition authorize_params :: "config \<Rightarrow> string \<Rightarrow> string \<Rightarrow> url \<Rightarrow> url" where
  "authorize_params cfg state codeChallenge u =
     set_param ''code_challenge_method'' ''S256''
       (set_param ''code_challenge'' codeChallenge
         (set_param ''state'' state
           (set_param ''scope'' (SCOPES cfg)
             (set_param ''response_type'' ''code''
               (set_param ''redirect_uri'' (CALLBACK_URL cfg)
                 (set_param ''client_id'' (INSFORGE_CLIENT_ID cfg) u))))))"

text \<open>
  What \<open>/auth/login\<close> and \<open>/auth/login-popup\<close> do once the state string is built: store
  state and verifier in the session, parse the authorization endpoint, set the
  parameters, log and redirect.  \<open>new URL\<close> throws a \<open>TypeError\<close> on a string that is no
  URL, after the session was written.
\<close>

definition start_flow ::
  "string \<Rightarrow> config \<Rightarrow> world \<Rightarrow> string \<Rightarrow> string \<Rightarrow> session \<Rightarrow> outcome" where
  "start_flow label cfg w verifier state s =
     (let codeChallenge = generateCodeChallenge verifier;
          s1 = s\<lparr>oauthState := JStr state, codeVerifier := JStr verifier\<rparr>
      in case new_URL w (INSFORGE_URL cfg @ ''/api/oauth/v1/authorize'') of
           None \<Rightarrow> \<lparr> resp = Rejected TypeError, sess = s1, events = [] \<rparr>
         | Some u \<Rightarrow>
             (let authUrl = authorize_params cfg state codeChallenge u
              in \<lparr> resp = Redirect (Url authUrl), sess = s1,
                   events = [ConsoleLogUrl label authUrl] \<rparr>))"

text \<open>\<open>app.get('/auth/login', ...)\<close>, lines 552--578.\<close>

definition login :: "config \<Rightarrow> world \<Rightarrow> byte list \<Rightarrow> byte list \<Rightarrow> session \<Rightarrow> outcome" where
  "login cfg w randomBytes32 randomBytes16 s =
     (let verifier = generateCodeVerifier randomBytes32;
          state = generateState randomBytes16
      in start_flow ''Redirecting to InsForge:'' cfg w verifier state s)"

text \<open>\<open>app.get('/auth/login-popup', ...)\<close>, lines 585--607.\<close>

definition login_popup :: "config \<Rightarrow> world \<Rightarrow> byte list \<Rightarrow> byte list \<Rightarrow> session \<Rightarrow> outcome" where
  "login_popup cfg w randomBytes32 randomBytes16 s =
     (let verifier = generateCodeVerifier randomBytes32;
          stateToken = generateState randomBytes16;
          state = stateToken @ '':popup''
      in start_flow ''Popup: Redirecting to InsForge:'' cfg w verifier state s)"

text \<open>
  Reading a response: the value of query parameter \<open>k\<close> of the URL it redirects to, if
  it is a redirect to a URL that has one.
\<close>

definition redirect_param :: "response \<Rightarrow> string \<Rightarrow> string option" where
  "redirect_param r k =
     (case r of Redirect (Url u) \<Rightarrow> sp_get (searchParams u) k | _ \<Rightarrow> None)"

section \<open>The callback handlers\<close>

definition token_request :: "config \<Rightarrow> jsval \<Rightarrow> jsval \<Rightarrow> request" where
  "token_request cfg code verifier =
     \<lparr> req_url = INSFORGE_URL cfg @ ''/api/oauth/v1/token'',
       req_method = ''POST'',
       req_headers = [(''Content-Type'', [Lit ''application/json''])],
       req_body = Some (JObj
         [(''grant_type'', JStr ''authorization_code''),
          (''code'', code),
          (''redirect_uri'', JStr (CALLBACK_URL cfg)),
          (''client_id'', JStr (INSFORGE_CLIENT_ID cfg)),
          (''client_secret'', JStr (INSFORGE_CLIENT_SECRET cfg)),
          (''code_verifier'', verifier)]) \<rparr>"

text \<open>The template \<open>`Bearer ${token}`\<close> of lines 650, 751 and 830.\<close>

definition bearer_header :: "jsval \<Rightarrow> part list" where
  "bearer_header token = [Lit ''Bearer '', Interp token]"

text \<open>The request a handler sends once that template has evaluated.\<close>

definition bearer_request :: "string \<Rightarrow> jsval \<Rightarrow> request" where
  "bearer_request u token =
     \<lparr> req_url = u,
       req_method = ''GET'',
       req_headers = [(''Authorization'', bearer_header token)],
       req_body = None \<rparr>"

definition profile_request :: "config \<Rightarrow> jsval \<Rightarrow> request" where
  "profile_request cfg token = bearer_request (INSFORGE_URL cfg @ ''/auth/v1/profile'') token"

text \<open>
  The tail both callbacks share (lines 649--655 and 749--758): build the header, fetch the
  profile with the new access token and, on a success status, store \<open>profile.user\<close>.
  The session \<open>s\<close> already holds the tokens.  The header is an argument of \<open>fetch\<close>: when
  its template throws, nothing is fetched.  The result is the session or the exception
  thrown, with the calls made.
\<close>

definition fetch_profile ::
  "config \<Rightarrow> world \<Rightarrow> jsval \<Rightarrow> session \<Rightarrow> (exn + session) \<times> event list" where
  "fetch_profile cfg w tokens s =
     (case template (bearer_header (jsprop tokens ''access_token'')) of
        Inl e \<Rightarrow> (Inl e, [])
      | Inr h \<Rightarrow>
          (let r = profile_request cfg (jsprop tokens ''access_token'') in
           (case fetch w r of
              NetworkError \<Rightarrow> Inl FetchError
            | Response status b \<Rightarrow>
                if ok status then
                  (case b of
                     None \<Rightarrow> Inl SyntaxError
                   | Some profile \<Rightarrow>
                       if nullish profile then Inl TypeError
                       else Inr (s\<lparr>user := jsprop profile ''user''\<rparr>))
                else Inr s,
            [Fetch r])))"

text \<open>Lines 644--647 and 741--746: store the tokens, delete the pending authorization.\<close>

definition store_tokens :: "jsval \<Rightarrow> session \<Rightarrow> session" where
  "store_tokens tokens s =
     s\<lparr> accessToken := jsprop tokens ''access_token'',
        refreshToken := jsprop tokens ''refresh_token'',
        oauthState := JUndefined,
        codeVerifier := JUndefined \<rparr>"

text \<open>
  The \<open>try\<close> block of \<open>/auth/callback-popup\<close> (lines 625--657).  The template of line
  641 is evaluated before \<open>send\<close> is called; when it throws, the \<open>catch\<close> answers.
\<close>

definition callback_popup_try ::
  "config \<Rightarrow> world \<Rightarrow> jsval \<Rightarrow> jsval \<Rightarrow> session \<Rightarrow> completion \<times> session \<times> event list" where
  "callback_popup_try cfg w code verifier s =
     (let treq = token_request cfg code verifier in
      case fetch w treq of
        NetworkError \<Rightarrow> (Thrown FetchError, s, [Fetch treq])
      | Response status b \<Rightarrow>
          (case b of
             None \<Rightarrow> (Thrown SyntaxError, s, [Fetch treq])
           | Some tokens \<Rightarrow>
               if nullish tokens then (Thrown TypeError, s, [Fetch treq])
               else if truthy (jsprop tokens ''error'') then
                 (case template [Lit ''Token error: '', Interp (jsprop tokens ''error'')] of
                    Inl e \<Rightarrow> (Thrown e, s, [Fetch treq])
                  | Inr message \<Rightarrow> (Returned (Send 400 (Text message)), s, [Fetch treq]))
               else
                 (let s1 = store_tokens tokens s in
                  case fetch_profile cfg w tokens s1 of
                    (Inl e, evs) \<Rightarrow> (Thrown e, s1, Fetch treq # evs)
                  | (Inr s2, evs) \<Rightarrow> (Returned (Redirect (Path ''/'')), s2, Fetch treq # evs))))"

text \<open>\<open>app.get('/auth/callback-popup', ...)\<close>, lines 613--662.\<close>

definition callback_popup :: "config \<Rightarrow> world \<Rightarrow> query \<Rightarrow> session \<Rightarrow> outcome" where
  "callback_popup cfg w q s =
     (if truthy_q (q_state q) \<and> \<not> strict_eq (q_state q) (oauthState s) then
        \<lparr> resp = Send 400 (Text [Lit ''Invalid state'']), sess = s, events = [] \<rparr>
      else if \<not> truthy (codeVerifier s) then
        \<lparr> resp = Send 400 (Text [Lit ''Session expired'']), sess = s, events = [] \<rparr>
      else
        (case callback_popup_try cfg w (js_of (q_code q)) (codeVerifier s) s of
           (Returned r, s', evs) \<Rightarrow> \<lparr> resp = r, sess = s', events = evs \<rparr>
         | (Thrown e, s', evs) \<Rightarrow>
             \<lparr> resp = Send 500 (Text [Lit ''Token exchange failed'']),
               sess = s',
               events = evs @ [ConsoleErrorExn ''Popup token exchange failed:'' e] \<rparr>))"

text \<open>\<open>sendError\<close>, the helper of \<open>/auth/callback\<close> (lines 679--685): a page of status 200.\<close>

definition sendError :: "part list \<Rightarrow> response" where
  "sendError message = Send 200 (AuthorizationFailed message)"

text \<open>
  The \<open>try\<close> block of \<open>/auth/callback\<close> (lines 708--801).  Line 730 logs before the
  template of line 731 is evaluated.  Past the log line of lines 734--738 the access
  token is a string or nullish.
\<close>

definition callback_try ::
  "config \<Rightarrow> world \<Rightarrow> jsval \<Rightarrow> jsval \<Rightarrow> bool \<Rightarrow> session \<Rightarrow> completion \<times> session \<times> event list" where
  "callback_try cfg w code verifier isPopup s =
     (let treq = token_request cfg code verifier;
          ev0 = [ConsoleLog ''Exchanging code for tokens...'' [], Fetch treq] in
      case fetch w treq of
        NetworkError \<Rightarrow> (Thrown FetchError, s, ev0)
      | Response status b \<Rightarrow>
          (case b of
             None \<Rightarrow> (Thrown SyntaxError, s, ev0)
           | Some tokens \<Rightarrow>
               if nullish tokens then (Thrown TypeError, s, ev0)
               else if truthy (jsprop tokens ''error'') then
                 (let ev1 = ev0 @ [ConsoleError ''Token exchange error:'' [tokens]] in
                  case template
                         [Lit ''Token exchange failed: '', Interp (jsprop tokens ''error''),
                          Lit ''. '', Interp (or_js (jsprop tokens ''message'') (JStr ''''))] of
                    Inl e \<Rightarrow> (Thrown e, s, ev1)
                  | Inr message \<Rightarrow> (Returned (sendError message), s, ev1))
               else
                 (case preview (jsprop tokens ''access_token'') of
                    Inl e \<Rightarrow> (Thrown e, s, ev0)
                  | Inr a \<Rightarrow>
                 (case preview (jsprop tokens ''refresh_token'') of
                    Inl e \<Rightarrow> (Thrown e, s, ev0)
                  | Inr r \<Rightarrow>
                 (let ev1 = ev0 @
                        [ConsoleLog ''Tokens received:''
                           [JObj [(''access_token'', JStr a), (''refresh_token'', JStr r),
                                  (''expires_in'', jsprop tokens ''expires_in'')]]];
                      s1 = store_tokens tokens s
                  in case fetch_profile cfg w tokens s1 of
                       (Inl e, evs) \<Rightarrow> (Thrown e, s1, ev1 @ evs)
                     | (Inr s2, evs) \<Rightarrow>
                         if isPopup then (Returned (Send 200 AuthorizationComplete), s2, ev1 @ evs)
                         else (Returned (Redirect (Path ''/'')), s2, ev1 @ evs))))))"

text \<open>
  \<open>app.get('/auth/callback', ...)\<close>, lines 675--807.  Line 689 logs the provider's error
  before line 690 evaluates its template, outside any \<open>try\<close>.
\<close>

definition callback :: "config \<Rightarrow> world \<Rightarrow> query \<Rightarrow> session \<Rightarrow> outcome" where
  "callback cfg w q s =
     (if truthy_q (q_error q) then
        (let evs = [ConsoleError ''OAuth error:''
                      [js_of (q_error q), js_of (q_error_description q)]] in
         case template
                [Lit ''Error: '', Interp (js_of (q_error q)), Lit ''. '',
                 Interp (or_js (js_of (q_error_description q)) (JStr ''''))] of
           Inl e \<Rightarrow> \<lparr> resp = Rejected e, sess = s, events = evs \<rparr>
         | Inr message \<Rightarrow> \<lparr> resp = sendError message, sess = s, events = evs \<rparr>)
      else
        (case ends_with_popup (q_state q) of
           Inl e \<Rightarrow> \<lparr> resp = Rejected e, sess = s, events = [] \<rparr>
         | Inr isPopup \<Rightarrow>
             if \<not> strict_eq (q_state q) (oauthState s) then
               \<lparr> resp = sendError [Lit ''Invalid state parameter. Possible CSRF attack.''],
                 sess = s,
                 events = [ConsoleError ''State mismatch:'' [js_of (q_state q), oauthState s]] \<rparr>
             else if \<not> truthy (codeVerifier s) then
               \<lparr> resp = sendError [Lit ''Missing code verifier. Session may have expired.''],
                 sess = s, events = [] \<rparr>
             else
               (case callback_try cfg w (js_of (q_code q)) (codeVerifier s) isPopup s of
                  (Returned r, s', evs) \<Rightarrow> \<lparr> resp = r, sess = s', events = evs \<rparr>
                | (Thrown e, s', evs) \<Rightarrow>
                    \<lparr> resp = Send 500 (Text [Lit ''Failed to exchange code for tokens'']),
                      sess = s',
                      events = evs @ [ConsoleErrorExn ''Token exchange failed:'' e] \<rparr>)))"

section \<open>The resource proxy\<close>

definition organizations_request :: "config \<Rightarrow> jsval \<Rightarrow> request" where
  "organizations_request cfg token =
     bearer_request (INSFORGE_URL cfg @ ''/organizations/v1'') token"

text \<open>
  \<open>app.get('/api/organizations', ...)\<close>, lines 820--841.  The header template of line
  830 is evaluated inside the \<open>try\<close>, before \<open>fetch\<close> is called.
\<close>

definition api_organizations :: "config \<Rightarrow> world \<Rightarrow> session \<Rightarrow> outcome" where
  "api_organizations cfg w s =
     (if \<not> truthy (accessToken s) then
        \<lparr> resp = Json 401 (JObj [(''error'', JStr ''Not authenticated'')]),
          sess = s, events = [] \<rparr>
      else
        (let failed = (\<lambda>e evs.
               \<lparr> resp = Json 500 (JObj [(''error'', JStr ''Failed to fetch organizations'')]),
                 sess = s,
                 events = evs @ [ConsoleErrorExn ''API call failed:'' e] \<rparr>)
         in case template (bearer_header (accessToken s)) of
              Inl e \<Rightarrow> failed e []
            | Inr h \<Rightarrow>
                (let r = organizations_request cfg (accessToken s) in
                 case fetch w r of
                   NetworkError \<Rightarrow> failed FetchError [Fetch r]
                 | Response status b \<Rightarrow>
                     (case b of
                        None \<Rightarrow> failed SyntaxError [Fetch r]
                      | Some data \<Rightarrow> \<lparr> resp = Json 200 data, sess = s, events = [Fetch r] \<rparr>))))"

section \<open>The challenge as the specification words it\<close>

text \<open>
  The specification describes \<open>deriveChallenge\<close> as the SHA-256 digest of the verifier
  in URL-safe base64 without padding.  Read literally: encode in standard base64 (RFC 4648
  section 4, padded with \<open>=\<close>), replace \<open>+\<close> by \<open>-\<close> and \<open>/\<close> by \<open>_\<close>, and drop the padding.
\<close>

definition base64_alphabet :: string where
  "base64_alphabet = ''ABCDEFGHIJKLMNOPQRSTUVWXYZabcdefghijklmnopqrstuvwxyz0123456789+/''"

definition b64 :: "nat \<Rightarrow> char" where
  "b64 i = base64_alphabet ! i"

fun base64 :: "byte list \<Rightarrow> string" where
  "base64 (a # b # c # bs) =
     [b64 (unat a div 4), b64 (unat a mod 4 * 16 + unat b div 16),
      b64 (unat b mod 16 * 4 + unat c div 64), b64 (unat c mod 64)] @ base64 bs"
| "base64 [a, b] =
     [b64 (unat a div 4), b64 (unat a mod 4 * 16 + unat b div 16), b64 (unat b mod 16 * 4),
      CHR ''='']"
| "base64 [a] = [b64 (unat a div 4), b64 (unat a mod 4 * 16), CHR ''='', CHR ''='']"
| "base64 [] = []"

definition url_safe :: "char \<Rightarrow> char" where
  "url_safe c = (if c = CHR ''+'' then CHR ''-'' else if c = CHR ''/'' then CHR ''_'' else c)"

definition spec_deriveChallenge :: "string \<Rightarrow> string" where
  "spec_deriveChallenge verifier =
     filter (\<lambda>c. c \<noteq> CHR ''='') (map url_safe (base64 (sha256 (utf8 verifier))))"

section \<open>Concrete runs\<close>

text \<open>The \<open>config\<close> object of lines 27--43 when no environment variable is set.\<close>

definition default_config :: config where
  "default_config =
     \<lparr> INSFORGE_CLIENT_ID = ''your_client_id'',
       INSFORGE_CLIENT_SECRET = ''your_client_secret'',
       INSFORGE_URL = ''http://localhost:3000'',
       CALLBACK_URL = ''http://localhost:4000/auth/callback'',
       SCOPES = ''user:read organizations:read projects:read projects:write'' \<rparr>"

text \<open>
  A stub authorization server at the default address: it answers the token endpoint, the
  profile endpoint and every other address with the three given results; the stub \<open>URL\<close>
  parser accepts every string and finds no query in it.
\<close>

definition stub_world :: "fetch_result \<Rightarrow> fetch_result \<Rightarrow> fetch_result \<Rightarrow> world" where
  "stub_world token_result profile_result other_result =
     \<lparr> fetch = (\<lambda>r.
         if req_url r = ''http://localhost:3000/api/oauth/v1/token'' then token_result
         else if req_url r = ''http://localhost:3000/auth/v1/profile'' then profile_result
         else other_result),
       new_URL = (\<lambda>s. Some \<lparr> href_base = s, searchParams = [], fragment = [] \<rparr>) \<rparr>"

definition tokens_T1 :: jsval where
  "tokens_T1 = JObj [(''access_token'', JStr ''T1''), (''refresh_token'', JStr ''R1''),
                      (''expires_in'', JNum 3600)]"

definition profile_u1 :: jsval where
  "profile_u1 = JObj [(''user'', JObj [(''id'', JStr ''u1''), (''email'', JStr ''a@b.com'')])]"

definition invalid_grant :: jsval where
  "invalid_grant = JObj [(''error'', JStr ''invalid_grant''), (''message'', JStr ''code expired'')]"

text \<open>A session after \<open>/auth/login-popup\<close>, and one after \<open>/auth/login\<close>.\<close>

definition pending_popup :: session where
  "pending_popup =
     \<lparr> oauthState = JStr ''00ff:popup'', codeVerifier = JStr ''verifier'',
       accessToken = JUndefined, refreshToken = JUndefined, user = JUndefined \<rparr>"

definition pending_redirect :: session where
  "pending_redirect =
     \<lparr> oauthState = JStr ''00ff'', codeVerifier = JStr ''verifier'',
       accessToken = JUndefined, refreshToken = JUndefined, user = JUndefined \<rparr>"

definition empty_session :: session where
  "empty_session =
     \<lparr> oauthState = JUndefined, codeVerifier = JUndefined,
       accessToken = JUndefined, refreshToken = JUndefined, user = JUndefined \<rparr>"

definition query_of :: "qval \<Rightarrow> qval \<Rightarrow> qval \<Rightarrow> query" where
  "query_of code state err =
     \<lparr> q_code = code, q_state = state, q_error = err, q_error_description = QUndefined \<rparr>"

definition relogin_session :: session where
  "relogin_session =
     \<lparr> oauthState = JStr ''00ff'', codeVerifier = JStr ''verifier'',
       accessToken = JStr ''T0'', refreshToken = JStr ''R0'',
       user = JObj [(''id'', JStr ''u0'')] \<rparr>"

definition logged_in :: session where
  "logged_in =
     \<lparr> oauthState = JUndefined, codeVerifier = JUndefined,
       accessToken = JStr ''T1'', refreshToken = JStr ''R1'',
       user = JObj [(''id'', JStr ''u1''), (''email'', JStr ''a@b.com'')] \<rparr>"

definition organizations_body :: jsval where
  "organizations_body = JObj [(''organizations'', JArr [JObj [(''id'', JStr ''o1'')]])]"

text \<open>The stub server answering as in the scenario of the specification.\<close>

definition world_ok :: world where
  "world_ok = stub_world (Response 200 (Some tokens_T1)) (Response 200 (Some profile_u1))
                (Response 200 (Some organizations_body))"

text \<open>The token endpoint rejects the code.\<close>

definition world_token_error :: world where
  "world_token_error = stub_world (Response 400 (Some invalid_grant)) NetworkError NetworkError"

text \<open>The token endpoint accepts the code, the profile endpoint answers 403.\<close>

definition world_no_profile :: world where
  "world_no_profile = stub_world (Response 200 (Some tokens_T1)) (Response 403 None) NetworkError"

text \<open>
  Token responses that contain an \<open>error\<close> property which is not truthy, beside the
  tokens.
\<close>

definition empty_error_body :: jsval where
  "empty_error_body = JObj [(''error'', JStr ''''), (''access_token'', JStr ''T1''),
                            (''refresh_token'', JStr ''R1'')]"

definition null_error_body :: jsval where
  "null_error_body = JObj [(''error'', JNull), (''access_token'', JStr ''T1''),
                           (''refresh_token'', JStr ''R1'')]"

text \<open>The profile endpoint answers status 204, without a body.\<close>

definition world_empty_profile :: world where
  "world_empty_profile = stub_world (Response 200 (Some tokens_T1)) (Response 204 None) NetworkError"

text \<open>
  A session whose access token is the parsed JSON object \<open>{"toString": 1}\<close>, as
  \<open>/auth/callback-popup\<close> stores it when the token endpoint answers such an
  \<open>access_token\<close>.
\<close>

definition object_token_session :: session where
  "object_token_session =
     \<lparr> oauthState = JUndefined, codeVerifier = JUndefined,
       accessToken = JObj [(''toString'', JNum 1)], refreshToken = JStr ''R1'',
       user = JUndefined \<rparr>"

text \<open>The token endpoint answers those bodies.\<close>

definition world_empty_error :: world where
  "world_empty_error =
     stub_world (Response 200 (Some empty_error_body)) (Response 200 (Some profile_u1)) NetworkError"

definition world_null_error :: world where
  "world_null_error =
     stub_world (Response 200 (Some null_error_body)) (Response 200 (Some profile_u1)) NetworkError"

text \<open>The token endpoint answers that object as the access token.\<close>

definition world_object_token :: world where
  "world_object_token =
     stub_world
       (Response 200 (Some (JObj [(''access_token'', JObj [(''toString'', JNum 1)]),
                                  (''refresh_token'', JStr ''R1'')])))
       (Response 200 (Some profile_u1))
       (Response 200 (Some organizations_body))"

section \<open>Basic facts\<close>

lemma fetches_append: "fetches (xs @ ys) = fetches xs @ fetches ys"
  by (induction xs rule: fetches.induct) simp_all

lemma truthy_prop_not_nullish: "truthy (jsprop t k) \<Longrightarrow> \<not> nullish t"
  by (cases t) (simp_all add: nullish_def)

lemma matching_state_no_throw:
  "strict_eq st v \<Longrightarrow>
   ends_with_popup st = Inr (case st of QString x \<Rightarrow> endsWith x '':popup'' | _ \<Rightarrow> False)"
  by (cases st; cases v) simp_all

text \<open>A value the log line of \<open>/auth/callback\<close> accepts is a string or nullish.\<close>

lemma preview_stringifies: "preview v = Inr a \<Longrightarrow> stringifies v"
  by (cases v) simp_all

lemma template_bearer:
  "template (bearer_header t) = (if stringifies t then Inr (bearer_header t) else Inl TypeError)"
  by (simp add: template_def bearer_header_def)

lemma store_tokens_fields:
  "oauthState (store_tokens t s) = JUndefined"
  "codeVerifier (store_tokens t s) = JUndefined"
  "accessToken (store_tokens t s) = jsprop t ''access_token''"
  "refreshToken (store_tokens t s) = jsprop t ''refresh_token''"
  "user (store_tokens t s) = user s"
  by (simp_all add: store_tokens_def)

lemma fetch_profile_frame:
  assumes "fst (fetch_profile cfg w t s1) = Inr s2"
  shows "oauthState s2 = oauthState s1 \<and> codeVerifier s2 = codeVerifier s1
       \<and> accessToken s2 = accessToken s1 \<and> refreshToken s2 = refreshToken s1"
  using assms
  by (auto simp: fetch_profile_def template_bearer Let_def
      split: fetch_result.splits if_splits option.splits)

lemma fetch_profile_success:
  assumes "stringifies (jsprop t ''access_token'')"
    and "fetch w (profile_request cfg (jsprop t ''access_token'')) = Response st (Some profile)"
    and "ok st" and "\<not> nullish profile"
  shows "fetch_profile cfg w t s1 =
           (Inr (s1\<lparr>user := jsprop profile ''user''\<rparr>),
            [Fetch (profile_request cfg (jsprop t ''access_token''))])"
  using assms by (simp add: fetch_profile_def template_bearer)

lemma fetch_profile_failure:
  assumes "stringifies (jsprop t ''access_token'')"
    and "fetch w (profile_request cfg (jsprop t ''access_token'')) = Response st b"
    and "\<not> ok st"
  shows "fetch_profile cfg w t s1 =
           (Inr s1, [Fetch (profile_request cfg (jsprop t ''access_token''))])"
  using assms by (simp add: fetch_profile_def template_bearer)

text \<open>
  An access token that cannot be converted to a string stops the profile fetch before
  any call is made.
\<close>

lemma fetch_profile_header_throws:
  assumes "\<not> stringifies (jsprop t ''access_token'')"
  shows "fetch_profile cfg w t s1 = (Inl TypeError, [])"
  using assms by (simp add: fetch_profile_def template_bearer)

text \<open>The tokens are in the session whatever the profile fetch does afterwards.\<close>

lemma tokens_kept_after_profile:
  "oauthState (case fst (fetch_profile cfg w t (store_tokens t s)) of
                 Inl e \<Rightarrow> store_tokens t s | Inr s2 \<Rightarrow> s2) = JUndefined"
  "codeVerifier (case fst (fetch_profile cfg w t (store_tokens t s)) of
                   Inl e \<Rightarrow> store_tokens t s | Inr s2 \<Rightarrow> s2) = JUndefined"
  "accessToken (case fst (fetch_profile cfg w t (store_tokens t s)) of
                  Inl e \<Rightarrow> store_tokens t s | Inr s2 \<Rightarrow> s2) = jsprop t ''access_token''"
  "refreshToken (case fst (fetch_profile cfg w t (store_tokens t s)) of
                   Inl e \<Rightarrow> store_tokens t s | Inr s2 \<Rightarrow> s2) = jsprop t ''refresh_token''"
  by (auto simp: store_tokens_fields split: sum.splits dest: fetch_profile_frame)

subsection \<open>The two \<open>try\<close> blocks, branch by branch\<close>

lemma callback_try_token_error:
  assumes "fetch w (token_request cfg code v) = Response st (Some tokens)"
    and "truthy (jsprop tokens ''error'')"
  shows "callback_try cfg w code v p s =
     (case template
             [Lit ''Token exchange failed: '', Interp (jsprop tokens ''error''), Lit ''. '',
              Interp (or_js (jsprop tokens ''message'') (JStr ''''))] of
        Inl e \<Rightarrow> Thrown e
      | Inr message \<Rightarrow> Returned (sendError message),
      s,
      [ConsoleLog ''Exchanging code for tokens...'' [], Fetch (token_request cfg code v),
       ConsoleError ''Token exchange error:'' [tokens]])"
  using assms truthy_prop_not_nullish[OF assms(2)]
  by (simp add: callback_try_def Let_def split: sum.splits)

lemma callback_popup_try_token_error:
  assumes "fetch w (token_request cfg code v) = Response st (Some tokens)"
    and "truthy (jsprop tokens ''error'')"
  shows "callback_popup_try cfg w code v s =
     (case template [Lit ''Token error: '', Interp (jsprop tokens ''error'')] of
        Inl e \<Rightarrow> Thrown e
      | Inr message \<Rightarrow> Returned (Send 400 (Text message)),
      s, [Fetch (token_request cfg code v)])"
  using assms truthy_prop_not_nullish[OF assms(2)]
  by (simp add: callback_popup_try_def Let_def split: sum.splits)

lemma callback_popup_try_success:
  assumes "fetch w (token_request cfg code v) = Response st (Some tokens)"
    and "\<not> nullish tokens" and "\<not> truthy (jsprop tokens ''error'')"
  shows "callback_popup_try cfg w code v s =
     (case fst (fetch_profile cfg w tokens (store_tokens tokens s)) of
        Inl e \<Rightarrow> Thrown e
      | Inr s2 \<Rightarrow> Returned (Redirect (Path ''/'')),
      case fst (fetch_profile cfg w tokens (store_tokens tokens s)) of
        Inl e \<Rightarrow> store_tokens tokens s
      | Inr s2 \<Rightarrow> s2,
      Fetch (token_request cfg code v)
        # snd (fetch_profile cfg w tokens (store_tokens tokens s)))"
  using assms
  by (simp add: callback_popup_try_def Let_def split: sum.splits prod.splits)

lemma callback_try_success:
  assumes "fetch w (token_request cfg code v) = Response st (Some tokens)"
    and "\<not> nullish tokens" and "\<not> truthy (jsprop tokens ''error'')"
    and "preview (jsprop tokens ''access_token'') = Inr a"
    and "preview (jsprop tokens ''refresh_token'') = Inr r"
  shows "callback_try cfg w code v p s =
     (case fst (fetch_profile cfg w tokens (store_tokens tokens s)) of
        Inl e \<Rightarrow> Thrown e
      | Inr s2 \<Rightarrow> Returned (if p then Send 200 AuthorizationComplete else Redirect (Path ''/'')),
      case fst (fetch_profile cfg w tokens (store_tokens tokens s)) of
        Inl e \<Rightarrow> store_tokens tokens s
      | Inr s2 \<Rightarrow> s2,
      [ConsoleLog ''Exchanging code for tokens...'' [],
       Fetch (token_request cfg code v),
       ConsoleLog ''Tokens received:''
         [JObj [(''access_token'', JStr a), (''refresh_token'', JStr r),
                (''expires_in'', jsprop tokens ''expires_in'')]]]
        @ snd (fetch_profile cfg w tokens (store_tokens tokens s)))"
  using assms
  by (simp add: callback_try_def Let_def split: sum.splits prod.splits)

subsection \<open>The handlers on the path through a successful exchange\<close>

lemma callback_popup_success:
  assumes "\<not> (truthy_q (q_state q) \<and> \<not> strict_eq (q_state q) (oauthState s))"
    and "truthy (codeVerifier s)"
    and "fetch w (token_request cfg (js_of (q_code q)) (codeVerifier s)) = Response st (Some tokens)"
    and "\<not> nullish tokens" and "\<not> truthy (jsprop tokens ''error'')"
  shows "sess (callback_popup cfg w q s) =
           (case fst (fetch_profile cfg w tokens (store_tokens tokens s)) of
              Inl e \<Rightarrow> store_tokens tokens s | Inr s2 \<Rightarrow> s2)"
    and "resp (callback_popup cfg w q s) =
           (case fst (fetch_profile cfg w tokens (store_tokens tokens s)) of
              Inl e \<Rightarrow> Send 500 (Text [Lit ''Token exchange failed''])
            | Inr s2 \<Rightarrow> Redirect (Path ''/''))"
    and "fetches (events (callback_popup cfg w q s)) =
           token_request cfg (js_of (q_code q)) (codeVerifier s)
             # fetches (snd (fetch_profile cfg w tokens (store_tokens tokens s)))"
  using assms
  by (auto simp: callback_popup_def callback_popup_try_success fetches_append
      split: sum.splits)

lemma callback_success:
  assumes "\<not> truthy_q (q_error q)"
    and "strict_eq (q_state q) (oauthState s)"
    and "truthy (codeVerifier s)"
    and "fetch w (token_request cfg (js_of (q_code q)) (codeVerifier s)) = Response st (Some tokens)"
    and "\<not> nullish tokens" and "\<not> truthy (jsprop tokens ''error'')"
    and "preview (jsprop tokens ''access_token'') = Inr a"
    and "preview (jsprop tokens ''refresh_token'') = Inr r"
  shows "sess (callback cfg w q s) =
           (case fst (fetch_profile cfg w tokens (store_tokens tokens s)) of
              Inl e \<Rightarrow> store_tokens tokens s | Inr s2 \<Rightarrow> s2)"
    and "ends_with_popup (q_state q) = Inr p \<Longrightarrow>
         resp (callback cfg w q s) =
           (case fst (fetch_profile cfg w tokens (store_tokens tokens s)) of
              Inl e \<Rightarrow> Send 500 (Text [Lit ''Failed to exchange code for tokens''])
            | Inr s2 \<Rightarrow> if p then Send 200 AuthorizationComplete else Redirect (Path ''/''))"
  using assms
  by (auto simp: callback_def matching_state_no_throw callback_try_success[where a=a and r=r]
      Let_def split: sum.splits)

text \<open>
  \<open>/auth/callback\<close> reaches the token endpoint only past both checks: a state that differs
  from the stored one, or a missing verifier, ends the request with the session untouched.
\<close>

lemma callback_checks_before_exchange:
  assumes "\<not> strict_eq (q_state q) (oauthState s) \<or> \<not> truthy (codeVerifier s)"
  shows "fetches (events (callback cfg w q s)) = [] \<and> sess (callback cfg w q s) = s"
  using assms by (auto simp: callback_def Let_def split: sum.splits)

text \<open>
  A \<open>state\<close> that is an array or an object makes \<open>/auth/callback\<close> throw at
  \<open>state?.endsWith\<close>, before the comparison and outside the \<open>try\<close>: the handler
  answers nothing and leaves the session as it was.
\<close>

lemma callback_rejects_non_string_state:
  assumes "\<not> truthy_q (q_error q)" and "ends_with_popup (q_state q) = Inl e"
  shows "callback cfg w q s = \<lparr> resp = Rejected e, sess = s, events = [] \<rparr>"
  using assms by (simp add: callback_def)

text \<open>
  A provider error that cannot be converted to a string (\<open>?error[toString]=1\<close>) makes
  the template of line 690 throw, outside the \<open>try\<close>: the handler has logged the error
  and answers nothing.
\<close>

lemma callback_rejects_unprintable_error:
  assumes "truthy_q (q_error q)"
    and "\<not> (stringifies (js_of (q_error q))
            \<and> stringifies (or_js (js_of (q_error_description q)) (JStr '''')))"
  shows "resp (callback cfg w q s) = Rejected TypeError"
  using assms by (auto simp: callback_def template_def Let_def)

text \<open>
  After a successful exchange a profile fetch that fails on the network is caught by the
  \<open>catch\<close> of the exchange: the answer is the status 500 page although the tokens are
  stored.
\<close>

lemma callback_profile_network_failure:
  assumes "\<not> truthy_q (q_error q)"
    and "strict_eq (q_state q) (oauthState s)"
    and "truthy (codeVerifier s)"
    and "fetch w (token_request cfg (js_of (q_code q)) (codeVerifier s)) = Response st (Some tokens)"
    and "\<not> nullish tokens" and "\<not> truthy (jsprop tokens ''error'')"
    and "preview (jsprop tokens ''access_token'') = Inr a"
    and "preview (jsprop tokens ''refresh_token'') = Inr r"
    and "fetch w (profile_request cfg (jsprop tokens ''access_token'')) = NetworkError"
  shows "resp (callback cfg w q s) = Send 500 (Text [Lit ''Failed to exchange code for tokens''])"
    and "sess (callback cfg w q s) = store_tokens tokens s"
proof -
  have fp: "fst (fetch_profile cfg w tokens (store_tokens tokens s)) = Inl FetchError"
    using assms(9) preview_stringifies [OF assms(7)]
    by (simp add: fetch_profile_def template_bearer)
  from matching_state_no_throw [OF assms(2)] obtain p where p: "ends_with_popup (q_state q) = Inr p"
    by blast
  show "resp (callback cfg w q s) = Send 500 (Text [Lit ''Failed to exchange code for tokens''])"
    using callback_success(2) [OF assms(1-8) p] by (simp add: fp)
  show "sess (callback cfg w q s) = store_tokens tokens s"
    using callback_success(1) [OF assms(1-8)] by (simp add: fp)
qed

text \<open>
  In \<open>/auth/callback-popup\<close> an access token that cannot be converted to a string is
  stored, and then stops the handler at the header of the profile request: the answer is
  the status 500 page and the profile endpoint is not called.
\<close>

lemma callback_popup_unprintable_token:
  assumes "\<not> (truthy_q (q_state q) \<and> \<not> strict_eq (q_state q) (oauthState s))"
    and "truthy (codeVerifier s)"
    and "fetch w (token_request cfg (js_of (q_code q)) (codeVerifier s)) = Response st (Some tokens)"
    and "\<not> nullish tokens" and "\<not> truthy (jsprop tokens ''error'')"
    and "\<not> stringifies (jsprop tokens ''access_token'')"
  shows "resp (callback_popup cfg w q s) = Send 500 (Text [Lit ''Token exchange failed''])"
    and "sess (callback_popup cfg w q s) = store_tokens tokens s"
    and "fetches (events (callback_popup cfg w q s)) =
           [token_request cfg (js_of (q_code q)) (codeVerifier s)]"
  using callback_popup_success [OF assms(1-5)] fetch_profile_header_throws [OF assms(6)]
  by simp_all

section \<open>Facts about the encodings and the authorization URL\<close>

lemma map_of_filter_key:
  "map_of (filter (\<lambda>p. fst p \<noteq> k) ps) k' = (if k' = k then None else map_of ps k')"
  by (induction ps) auto

lemma sp_get_set: "sp_get (sp_set ps k v) k' = (if k' = k then Some v else sp_get ps k')"
  by (induction ps) (auto simp: sp_get_def map_of_filter_key)

lemma searchParams_set_param:
  "sp_get (searchParams (set_param k v u)) k' = (if k' = k then Some v else sp_get (searchParams u) k')"
  by (simp add: set_param_def sp_get_set)

lemma authorize_params_get:
  "sp_get (searchParams (authorize_params cfg st ch u)) ''client_id'' = Some (INSFORGE_CLIENT_ID cfg)"
  "sp_get (searchParams (authorize_params cfg st ch u)) ''redirect_uri'' = Some (CALLBACK_URL cfg)"
  "sp_get (searchParams (authorize_params cfg st ch u)) ''response_type'' = Some ''code''"
  "sp_get (searchParams (authorize_params cfg st ch u)) ''scope'' = Some (SCOPES cfg)"
  "sp_get (searchParams (authorize_params cfg st ch u)) ''state'' = Some st"
  "sp_get (searchParams (authorize_params cfg st ch u)) ''code_challenge'' = Some ch"
  "sp_get (searchParams (authorize_params cfg st ch u)) ''code_challenge_method'' = Some ''S256''"
  by (simp_all add: authorize_params_def searchParams_set_param)

lemma start_flow_redirect:
  assumes "new_URL w (INSFORGE_URL cfg @ ''/api/oauth/v1/authorize'') = Some u0"
  shows "resp (start_flow l cfg w v st s) = Redirect (Url (authorize_params cfg st (generateCodeChallenge v) u0))"
    and "codeVerifier (sess (start_flow l cfg w v st s)) = JStr v"
    and "oauthState (sess (start_flow l cfg w v st s)) = JStr st"
  using assms by (simp_all add: start_flow_def Let_def)

lemma start_flow_session:
  "sess (start_flow l cfg w v st s) = s\<lparr>oauthState := JStr st, codeVerifier := JStr v\<rparr>"
  by (simp add: start_flow_def Let_def split: option.splits)

lemma hex_digit_mem: "n < 16 \<Longrightarrow> hex_digit n \<in> set ''0123456789abcdef''"
  unfolding hex_digit_def by (rule nth_mem) simp

lemma unat_byte_div16: "unat (b::byte) div 16 < 16"
proof -
  have "unat b < 256" using unsigned_less[of b] by simp
  then show ?thesis by simp
qed

lemma to_hex_alphabet: "set (to_hex bs) \<subseteq> set ''0123456789abcdef''"
proof -
  have "hex_digit (unat b div 16) \<in> set ''0123456789abcdef''
      \<and> hex_digit (unat b mod 16) \<in> set ''0123456789abcdef''" for b :: byte
    using hex_digit_mem[OF unat_byte_div16[of b]] hex_digit_mem[of "unat b mod 16"] by simp
  then show ?thesis by (auto simp: to_hex_def)
qed

lemma endsWith_append: "endsWith (s @ t) t"
  by (simp add: endsWith_def)

lemma colon_not_hex: "CHR '':'' \<notin> set (to_hex bs)"
  using to_hex_alphabet[of bs] by auto

lemma hex_not_popup: "\<not> endsWith (to_hex bs) '':popup''"
proof
  assume "endsWith (to_hex bs) '':popup''"
  then have "set '':popup'' \<subseteq> set (to_hex bs)"
    by (metis endsWith_def set_drop_subset)
  then show False using colon_not_hex[of bs] by simp
qed

lemma byte_bound: "unat (b::byte) < 256"
  using unsigned_less[of b] by simp

lemma sextet_bounds:
  fixes a b c :: byte
  shows "unat a div 4 < 64"
    and "unat a mod 4 * 16 + unat b div 16 < 64"
    and "unat b mod 16 * 4 + unat c div 64 < 64"
    and "unat c mod 64 < 64"
    and "unat a mod 4 * 16 < 64"
    and "unat b mod 16 * 4 < 64"
  using byte_bound[of a] byte_bound[of b] byte_bound[of c] by simp_all

lemma alphabets_agree: "map url_safe base64_alphabet = base64url_alphabet"
  by (simp add: base64_alphabet_def base64url_alphabet_def url_safe_def)

lemma url_safe_b64: "i < 64 \<Longrightarrow> url_safe (b64 i) = b64u i"
proof -
  assume i: "i < 64"
  have "length base64_alphabet = 64" by (simp add: base64_alphabet_def)
  with i have "map url_safe base64_alphabet ! i = url_safe (base64_alphabet ! i)"
    by simp
  then show ?thesis by (simp add: alphabets_agree b64_def b64u_def)
qed

lemma b64u_not_pad: "i < 64 \<Longrightarrow> b64u i \<noteq> CHR ''=''"
proof -
  assume i: "i < 64"
  have "CHR ''='' \<notin> set base64url_alphabet" by (simp add: base64url_alphabet_def)
  moreover have "b64u i \<in> set base64url_alphabet"
    unfolding b64u_def using i by (intro nth_mem) (simp add: base64url_alphabet_def)
  ultimately show ?thesis by metis
qed

lemma url_safe_pad: "url_safe CHR ''='' = CHR ''=''"
  by (simp add: url_safe_def)

lemma base64url_refines:
  "base64url bs = filter (\<lambda>c. c \<noteq> CHR ''='') (map url_safe (base64 bs))"
  by (induction bs rule: base64url.induct)
     (simp_all add: url_safe_b64 b64u_not_pad sextet_bounds url_safe_pad)

lemma b64u_inj: "i < 64 \<Longrightarrow> j < 64 \<Longrightarrow> b64u i = b64u j \<Longrightarrow> i = j"
proof -
  assume i: "i < 64" and j: "j < 64" and e: "b64u i = b64u j"
  have d: "distinct base64url_alphabet" by (simp add: base64url_alphabet_def)
  have l: "length base64url_alphabet = 64" by (simp add: base64url_alphabet_def)
  from d i j e l show "i = j"
    by (simp add: b64u_def nth_eq_iff_index_eq)
qed

lemma byte_from_div_mod:
  fixes a a' :: byte
  assumes "unat a div k = unat a' div k" and "unat a mod k = unat a' mod k"
  shows "a = a'"
proof -
  have "unat a div k * k + unat a mod k = unat a' div k * k + unat a' mod k"
    using assms by simp
  then have "unat a = unat a'"
    by (simp only: div_mult_mod_eq)
  then show ?thesis by (simp add: word_unat_eq_iff)
qed

lemma digits:
  fixes x y x' y' k :: nat
  assumes "x * k + y = x' * k + y'" and "y < k" and "y' < k"
  shows "x = x' \<and> y = y'"
proof -
  have "x = (x * k + y) div k" using assms(2) by simp
  also have "\<dots> = (x' * k + y') div k" by (simp only: assms(1))
  also have "\<dots> = x'" using assms(3) by simp
  finally have "x = x'" .
  with assms(1) show ?thesis by simp
qed

lemma group_inj:
  fixes a b c a' b' c' :: byte
  assumes "unat a div 4 = unat a' div 4"
    and "unat a mod 4 * 16 + unat b div 16 = unat a' mod 4 * 16 + unat b' div 16"
    and "unat b mod 16 * 4 + unat c div 64 = unat b' mod 16 * 4 + unat c' div 64"
    and "unat c mod 64 = unat c' mod 64"
  shows "a = a' \<and> b = b' \<and> c = c'"
proof -
  have b16: "unat b div 16 < 16" "unat b' div 16 < 16"
    using byte_bound[of b] byte_bound[of b'] by simp_all
  have c64: "unat c div 64 < 4" "unat c' div 64 < 4"
    using byte_bound[of c] byte_bound[of c'] by simp_all
  from digits[OF assms(2) b16]
  have a4: "unat a mod 4 = unat a' mod 4" and bd: "unat b div 16 = unat b' div 16"
    by simp_all
  from digits[OF assms(3) c64]
  have bm: "unat b mod 16 = unat b' mod 16" and cd: "unat c div 64 = unat c' div 64"
    by simp_all
  show ?thesis
    using byte_from_div_mod[OF assms(1) a4] byte_from_div_mod[OF bd bm]
      byte_from_div_mod[OF cd assms(4)] by simp
qed

lemma pair_inj:
  fixes a b a' b' :: byte
  assumes "unat a div 4 = unat a' div 4"
    and "unat a mod 4 * 16 + unat b div 16 = unat a' mod 4 * 16 + unat b' div 16"
    and "unat b mod 16 * 4 = unat b' mod 16 * 4"
  shows "a = a' \<and> b = b'"
proof -
  have b16: "unat b div 16 < 16" "unat b' div 16 < 16"
    using byte_bound[of b] byte_bound[of b'] by simp_all
  from digits[OF assms(2) b16]
  have a4: "unat a mod 4 = unat a' mod 4" and bd: "unat b div 16 = unat b' div 16"
    by simp_all
  from assms(3) have bm: "unat b mod 16 = unat b' mod 16" by simp
  show ?thesis
    using byte_from_div_mod[OF assms(1) a4] byte_from_div_mod[OF bd bm] by simp
qed

lemma single_inj:
  fixes a a' :: byte
  assumes "unat a div 4 = unat a' div 4" and "unat a mod 4 * 16 = unat a' mod 4 * 16"
  shows "a = a'"
proof -
  from assms(2) have "unat a mod 4 = unat a' mod 4" by simp
  with assms(1) show ?thesis by (rule byte_from_div_mod)
qed

lemma base64url_inj: "base64url xs = base64url ys \<Longrightarrow> xs = ys"
proof (induction xs arbitrary: ys rule: base64url.induct)
  case (1 a b c bs)
  show ?case
  proof (cases ys rule: base64url.cases)
    case (1 a' b' c' bs')
    with "1.prems" have e: "b64u (unat a div 4) = b64u (unat a' div 4)"
      "b64u (unat a mod 4 * 16 + unat b div 16) = b64u (unat a' mod 4 * 16 + unat b' div 16)"
      "b64u (unat b mod 16 * 4 + unat c div 64) = b64u (unat b' mod 16 * 4 + unat c' div 64)"
      "b64u (unat c mod 64) = b64u (unat c' mod 64)"
      and r: "base64url bs = base64url bs'"
      by simp_all
    have "a = a' \<and> b = b' \<and> c = c'"
      by (rule group_inj) (rule b64u_inj[OF _ _ e(1)] b64u_inj[OF _ _ e(2)]
          b64u_inj[OF _ _ e(3)] b64u_inj[OF _ _ e(4)]; simp add: sextet_bounds)+
    with r "1.IH" 1 show ?thesis by simp
  qed (use "1.prems" in simp_all)
next
  case (2 a b)
  show ?case
  proof (cases ys rule: base64url.cases)
    case (2 a' b')
    with "2.prems" have e: "b64u (unat a div 4) = b64u (unat a' div 4)"
      "b64u (unat a mod 4 * 16 + unat b div 16) = b64u (unat a' mod 4 * 16 + unat b' div 16)"
      "b64u (unat b mod 16 * 4) = b64u (unat b' mod 16 * 4)"
      by simp_all
    have "a = a' \<and> b = b'"
      by (rule pair_inj) (rule b64u_inj[OF _ _ e(1)] b64u_inj[OF _ _ e(2)]
          b64u_inj[OF _ _ e(3)]; simp add: sextet_bounds)+
    with 2 show ?thesis by simp
  qed (use "2.prems" in simp_all)
next
  case (3 a)
  show ?case
  proof (cases ys rule: base64url.cases)
    case (3 a')
    with "3.prems" have e: "b64u (unat a div 4) = b64u (unat a' div 4)"
      "b64u (unat a mod 4 * 16) = b64u (unat a' mod 4 * 16)"
      by simp_all
    have "a = a'"
      by (rule single_inj) (rule b64u_inj[OF _ _ e(1)] b64u_inj[OF _ _ e(2)];
          simp add: sextet_bounds)+
    with 3 show ?thesis by simp
  qed (use "3.prems" in simp_all)
next
  case 4
  then show ?case by (cases ys rule: base64url.cases) simp_all
qed

section \<open>SHA-256 on concrete messages\<close>

lemma reduce32_id: "reduce32 x = x"
  by (simp add: reduce32_def)

lemma sha_round_reduced:
  "sha_round k w [a, b, c, d, e, f, g, h] =
     (let t1 = reduce32 (h + Sigma1 e + Ch e f g + k + w);
          t2 = reduce32 (Sigma0 a + Maj a b c)
      in [reduce32 (t1 + t2), a, b, c, reduce32 (d + t1), e, f, g])"
  by (simp add: reduce32_id)

lemma next_window_reduced:
  "next_window [w0, w1, w2, w3, w4, w5, w6, w7, w8, w9, w10, w11, w12, w13, w14, w15] =
     [w1, w2, w3, w4, w5, w6, w7, w8, w9, w10, w11, w12, w13, w14, w15,
      reduce32 (sigma1 w14 + w9 + sigma0 w1 + w0)]"
  by (simp add: reduce32_id)

lemma replicate_numeral_unfold: "replicate (numeral k) x = x # replicate (pred_numeral k) x"
  by (simp add: numeral_eq_Suc)

lemmas sha_eval = compress_def K256_def H256_def sha_round_reduced next_window_reduced
  Sigma0_def Sigma1_def sigma0_def sigma1_def rotr_def Ch_def Maj_def reduce32_def Let_def

lemmas pad_eval = sha_pad_def utf8_def length_bytes_def replicate_numeral_unfold

text \<open>The one-block test vector of FIPS 180-4: the digest of \<open>abc\<close>.\<close>

lemma abc_block:
  "blocks16 (be_words (sha_pad (utf8 ''abc''))) =
    [[1633837952, 0, 0, 0, 0, 0, 0, 0,
      0, 0, 0, 0, 0, 0, 0, 24]]"
  by (simp add: pad_eval)

lemma abc_compress:
  "compress
    [1633837952, 0, 0, 0, 0, 0, 0, 0,
     0, 0, 0, 0, 0, 0, 0, 24]
    H256 =
    [3128432319, 2399260650, 1094795486, 1571693091, 2953011619, 2518121116, 3021012833, 4060091821]"
  by (simp add: sha_eval del: sha_round.simps next_window.simps)

lemma abc_digest:
  "to_hex (sha256 (utf8 ''abc'')) =
     ''ba7816bf8f01cfea414140de5dae2223b00361a396177a9cb410ff61f20015ad''"
  by (simp add: sha256_def abc_block abc_compress word_bytes_def to_hex_def hex_digit_def)

text \<open>The verifier of RFC 7636, appendix B.\<close>

lemma rfc7636_block:
  "blocks16 (be_words (sha_pad (utf8 ''dBjftJeZ4CVP-mB92K27uhbUJU1p1r_wW1gFWFOEjXk''))) =
    [[1682074214, 1951032666, 876828240, 762135097, 843788855, 1969775189, 1247097200, 829579127,
      1462855494, 1464225605, 1784179584, 0, 0, 0, 0, 344]]"
  by (simp add: pad_eval)

lemma rfc7636_compress:
  "compress
    [1682074214, 1951032666, 876828240, 762135097, 843788855, 1969775189, 1247097200, 829579127,
     1462855494, 1464225605, 1784179584, 0, 0, 0, 0, 344]
    H256 =
    [332603030, 437967084, 790016268, 1285041672, 1990752429, 1844528214, 1860274506, 3413178819]"
  by (simp add: sha_eval del: sha_round.simps next_window.simps)

lemma rfc7636_digest:
  "to_hex (sha256 (utf8 ''dBjftJeZ4CVP-mB92K27uhbUJU1p1r_wW1gFWFOEjXk'')) =
     ''13d31e961a1ad8ec2f16b10c4c982e0876a878ad6df144566ee1894acb70f9c3''"
  by (simp add: sha256_def rfc7636_block rfc7636_compress word_bytes_def to_hex_def hex_digit_def)

lemma rfc7636_challenge:
  "generateCodeChallenge ''dBjftJeZ4CVP-mB92K27uhbUJU1p1r_wW1gFWFOEjXk'' =
     ''E9Melhoa2OwvFrEMTJguCHaoeK1t8URWbuGJSstw-cM''"
  by (simp add: generateCodeChallenge_def sha256_def rfc7636_block rfc7636_compress word_bytes_def
      b64u_def base64url_alphabet_def)

section \<open>The claims about the callback\<close>

text \<open>The definitions a concrete run unfolds.\<close>

lemmas run_defs = callback_def callback_try_def callback_popup_def callback_popup_try_def
  fetch_profile_def store_tokens_def template_def bearer_header_def sendError_def or_js_def
  token_request_def profile_request_def bearer_request_def organizations_request_def
  api_organizations_def stub_world_def default_config_def query_of_def nullish_def ok_def
  endsWith_def Let_def

text \<open>
  C1.  The claim: a callback (to \<open>/auth/callback\<close> or \<open>/auth/callback-popup\<close>) whose
  \<open>state\<close> differs from the stored one, or whose session has no verifier, is answered
  with an error and never reaches the token endpoint.  \<open>/auth/callback\<close> behaves so
  (\<open>callback_checks_before_exchange\<close>).  \<open>/auth/callback-popup\<close> compares the state only
  when the request carries a non-empty one: the request below has no \<open>state\<close> at all, the
  session holds a pending state, and the handler posts to the token endpoint, stores the
  tokens and redirects to the home page.
\<close>

theorem callback_popup_without_state_exchanges:
  "\<not> strict_eq (q_state (query_of (QString ''ABC123'') QUndefined QUndefined))
        (oauthState pending_popup)
   \<and> fetches (events (callback_popup default_config world_ok
        (query_of (QString ''ABC123'') QUndefined QUndefined) pending_popup))
      = [token_request default_config (JStr ''ABC123'') (JStr ''verifier''),
         profile_request default_config (JStr ''T1'')]
   \<and> resp (callback_popup default_config world_ok
        (query_of (QString ''ABC123'') QUndefined QUndefined) pending_popup)
      = Redirect (Path ''/'')
   \<and> accessToken (sess (callback_popup default_config world_ok
        (query_of (QString ''ABC123'') QUndefined QUndefined) pending_popup))
      = JStr ''T1''"
  by (simp add: run_defs pending_popup_def world_ok_def tokens_T1_def profile_u1_def)

text \<open>
  C2, as the code has it.  For every callback with a matching state and a verifier in the
  session: when the body the token endpoint answers has a truthy \<open>error\<close> property (the
  test of the handlers is \<open>if (tokens.error)\<close>), the access token and refresh token of
  the session are what they were, and the handler answers with that error whenever the
  values it reports convert to strings: \<open>/auth/callback\<close> on its error page, with the
  error and the message (for a request that carries no provider error, which would be
  reported instead), and \<open>/auth/callback-popup\<close> with status 400.
\<close>

theorem token_error_surfaced_not_stored:
  assumes "strict_eq (q_state q) (oauthState s)"
    and "truthy (codeVerifier s)"
    and "fetch w (token_request cfg (js_of (q_code q)) (codeVerifier s)) = Response st (Some tokens)"
    and "truthy (jsprop tokens ''error'')"
  shows "(\<not> truthy_q (q_error q) \<and> stringifies (jsprop tokens ''error'')
            \<and> stringifies (or_js (jsprop tokens ''message'') (JStr '''')) \<longrightarrow>
            resp (callback cfg w q s) = sendError
              [Lit ''Token exchange failed: '', Interp (jsprop tokens ''error''), Lit ''. '',
               Interp (or_js (jsprop tokens ''message'') (JStr ''''))])
       \<and> accessToken (sess (callback cfg w q s)) = accessToken s
       \<and> refreshToken (sess (callback cfg w q s)) = refreshToken s
       \<and> (stringifies (jsprop tokens ''error'') \<longrightarrow>
            resp (callback_popup cfg w q s) =
              Send 400 (Text [Lit ''Token error: '', Interp (jsprop tokens ''error'')]))
       \<and> accessToken (sess (callback_popup cfg w q s)) = accessToken s
       \<and> refreshToken (sess (callback_popup cfg w q s)) = refreshToken s"
  using assms
  by (auto simp: callback_def callback_popup_def matching_state_no_throw template_def Let_def
      callback_try_token_error callback_popup_try_token_error split: sum.splits)

theorem token_error_surfaced_not_stored_witness:
  "resp (callback default_config world_token_error
       (query_of (QString ''ABC123'') (QString ''00ff'') QUndefined) pending_redirect)
     = Send 200 (AuthorizationFailed
         [Lit ''Token exchange failed: '', Interp (JStr ''invalid_grant''), Lit ''. '',
          Interp (JStr ''code expired'')])
   \<and> accessToken (sess (callback default_config world_token_error
       (query_of (QString ''ABC123'') (QString ''00ff'') QUndefined) pending_redirect))
     = JUndefined
   \<and> resp (callback_popup default_config world_token_error
       (query_of (QString ''ABC123'') (QString ''00ff'') QUndefined) pending_redirect)
     = Send 400 (Text [Lit ''Token error: '', Interp (JStr ''invalid_grant'')])
   \<and> accessToken (sess (callback_popup default_config world_token_error
       (query_of (QString ''ABC123'') (QString ''00ff'') QUndefined) pending_redirect))
     = JUndefined"
proof -
  let ?q = "query_of (QString ''ABC123'') (QString ''00ff'') QUndefined"
  have h1: "strict_eq (q_state ?q) (oauthState pending_redirect)"
    by (simp add: query_of_def pending_redirect_def)
  have h2: "truthy (codeVerifier pending_redirect)"
    by (simp add: pending_redirect_def)
  have h3: "fetch world_token_error
      (token_request default_config (js_of (q_code ?q)) (codeVerifier pending_redirect))
      = Response 400 (Some invalid_grant)"
    by (simp add: world_token_error_def stub_world_def token_request_def default_config_def)
  have h4: "truthy (jsprop invalid_grant ''error'')"
    by (simp add: invalid_grant_def)
  have h5: "\<not> truthy_q (q_error ?q)"
    by (simp add: query_of_def)
  have h6: "stringifies (jsprop invalid_grant ''error'')"
    "stringifies (or_js (jsprop invalid_grant ''message'') (JStr ''''))"
    by (simp_all add: invalid_grant_def or_js_def)
  from token_error_surfaced_not_stored [OF h1 h2 h3 h4] h5 h6 show ?thesis
    by (simp add: invalid_grant_def or_js_def sendError_def pending_redirect_def)
qed

text \<open>
  The claim as stated speaks of a body that contains an \<open>error\<close> field.  The body below
  contains one, the empty string, beside the tokens: both handlers take it for a success,
  store the tokens and redirect.
\<close>

theorem empty_error_field_stores_tokens:
  "jsprop empty_error_body ''error'' = JStr ''''
   \<and> strict_eq (q_state (query_of (QString ''ABC123'') (QString ''00ff'') QUndefined))
        (oauthState pending_redirect)
   \<and> accessToken (sess (callback default_config world_empty_error
        (query_of (QString ''ABC123'') (QString ''00ff'') QUndefined) pending_redirect))
      = JStr ''T1''
   \<and> resp (callback default_config world_empty_error
        (query_of (QString ''ABC123'') (QString ''00ff'') QUndefined) pending_redirect)
      = Redirect (Path ''/'')
   \<and> refreshToken (sess (callback_popup default_config world_empty_error
        (query_of (QString ''ABC123'') (QString ''00ff'') QUndefined) pending_redirect))
      = JStr ''R1''
   \<and> resp (callback_popup default_config world_empty_error
        (query_of (QString ''ABC123'') (QString ''00ff'') QUndefined) pending_redirect)
      = Redirect (Path ''/'')"
  by (simp add: run_defs pending_redirect_def world_empty_error_def empty_error_body_def
      profile_u1_def)

text \<open>
  C3, as the code has it.  For every request to \<open>/auth/callback\<close> that carries a truthy
  (non-empty) \<open>error\<close> parameter, the handler logs the provider's error and runs no
  further step: the session is unchanged, no state comparison is made or logged, and
  nothing is fetched; and when the error and its description convert to strings, it
  answers its error page reporting them.  \<open>/auth/callback-popup\<close> does not read \<open>error\<close>
  or \<open>error_description\<close>: what it does is the same whatever they are.
\<close>

theorem provider_error_reported:
  assumes "truthy_q (q_error q)"
  shows "sess (callback cfg w q s) = s
       \<and> events (callback cfg w q s) =
            [ConsoleError ''OAuth error:'' [js_of (q_error q), js_of (q_error_description q)]]
       \<and> fetches (events (callback cfg w q s)) = []
       \<and> (stringifies (js_of (q_error q))
            \<and> stringifies (or_js (js_of (q_error_description q)) (JStr '''')) \<longrightarrow>
            resp (callback cfg w q s) = sendError
              [Lit ''Error: '', Interp (js_of (q_error q)), Lit ''. '',
               Interp (or_js (js_of (q_error_description q)) (JStr ''''))])
       \<and> callback_popup cfg w (q\<lparr>q_error := e, q_error_description := d\<rparr>) s
            = callback_popup cfg w q s"
  using assms
  by (auto simp: callback_def callback_popup_def template_def Let_def split: sum.splits)

theorem provider_error_reported_witness:
  "truthy_q (q_error (query_of (QString ''ABC123'') (QString ''00ff'') (QString ''access_denied'')))
   \<and> callback default_config world_ok
        (query_of (QString ''ABC123'') (QString ''00ff'') (QString ''access_denied''))
        pending_redirect
      = \<lparr> resp = Send 200 (AuthorizationFailed
             [Lit ''Error: '', Interp (JStr ''access_denied''), Lit ''. '', Interp (JStr '''')]),
          sess = pending_redirect,
          events = [ConsoleError ''OAuth error:'' [JStr ''access_denied'', JUndefined]] \<rparr>"
proof -
  let ?q = "query_of (QString ''ABC123'') (QString ''00ff'') (QString ''access_denied'')"
  have h: "truthy_q (q_error ?q)"
    by (simp add: query_of_def)
  have g: "stringifies (js_of (q_error ?q))"
    "stringifies (or_js (js_of (q_error_description ?q)) (JStr ''''))"
    by (simp_all add: query_of_def or_js_def)
  from provider_error_reported [OF h, of default_config world_ok pending_redirect] g h
  show ?thesis
    by (simp add: query_of_def or_js_def sendError_def outcome.equality)
qed

text \<open>
  The claim as stated, for every inbound callback, fails on \<open>/auth/callback-popup\<close>: the
  request below carries \<open>error=access_denied\<close>, and the handler exchanges the code, stores
  the tokens and redirects to the home page.
\<close>

theorem callback_popup_ignores_provider_error:
  "truthy_q (q_error (query_of (QString ''ABC123'') (QString ''00ff:popup'') (QString ''access_denied'')))
   \<and> fetches (events (callback_popup default_config world_ok
        (query_of (QString ''ABC123'') (QString ''00ff:popup'') (QString ''access_denied''))
        pending_popup))
      = [token_request default_config (JStr ''ABC123'') (JStr ''verifier''),
         profile_request default_config (JStr ''T1'')]
   \<and> resp (callback_popup default_config world_ok
        (query_of (QString ''ABC123'') (QString ''00ff:popup'') (QString ''access_denied''))
        pending_popup)
      = Redirect (Path ''/'')
   \<and> accessToken (sess (callback_popup default_config world_ok
        (query_of (QString ''ABC123'') (QString ''00ff:popup'') (QString ''access_denied''))
        pending_popup))
      = JStr ''T1''"
  by (simp add: run_defs pending_popup_def world_ok_def tokens_T1_def profile_u1_def)

text \<open>
  C4, as the code has it.  For every callback that completes a successful token exchange
  (the request passes the handler's checks, the token endpoint answers a JSON value that
  is not \<open>null\<close> and has no truthy \<open>error\<close>, and, for \<open>/auth/callback\<close>, the two tokens
  are strings or absent, so that its log line does not throw): in the resulting session
  the pending state and verifier are absent and the access token and refresh token are
  those of the token response; and when the profile fetch returned a success status with
  a JSON body other than \<open>null\<close> (for \<open>/auth/callback-popup\<close>: and the access token
  converts to a string, so that the profile request is made), the user is that body's
  \<open>user\<close>.
\<close>

theorem successful_exchange_session:
  assumes "truthy (codeVerifier s)"
    and "fetch w (token_request cfg (js_of (q_code q)) (codeVerifier s)) = Response st (Some tokens)"
    and "\<not> nullish tokens"
    and "\<not> truthy (jsprop tokens ''error'')"
  shows "(\<not> truthy_q (q_error q) \<and> strict_eq (q_state q) (oauthState s)
            \<and> preview (jsprop tokens ''access_token'') = Inr a
            \<and> preview (jsprop tokens ''refresh_token'') = Inr r \<longrightarrow>
            oauthState (sess (callback cfg w q s)) = JUndefined
          \<and> codeVerifier (sess (callback cfg w q s)) = JUndefined
          \<and> accessToken (sess (callback cfg w q s)) = jsprop tokens ''access_token''
          \<and> refreshToken (sess (callback cfg w q s)) = jsprop tokens ''refresh_token''
          \<and> (fetch w (profile_request cfg (jsprop tokens ''access_token''))
                 = Response st' (Some profile) \<and> ok st' \<and> \<not> nullish profile \<longrightarrow>
               user (sess (callback cfg w q s)) = jsprop profile ''user''))
       \<and> (\<not> (truthy_q (q_state q) \<and> \<not> strict_eq (q_state q) (oauthState s)) \<longrightarrow>
            oauthState (sess (callback_popup cfg w q s)) = JUndefined
          \<and> codeVerifier (sess (callback_popup cfg w q s)) = JUndefined
          \<and> accessToken (sess (callback_popup cfg w q s)) = jsprop tokens ''access_token''
          \<and> refreshToken (sess (callback_popup cfg w q s)) = jsprop tokens ''refresh_token''
          \<and> (stringifies (jsprop tokens ''access_token'')
               \<and> fetch w (profile_request cfg (jsprop tokens ''access_token''))
                 = Response st' (Some profile) \<and> ok st' \<and> \<not> nullish profile \<longrightarrow>
               user (sess (callback_popup cfg w q s)) = jsprop profile ''user''))"
proof (intro conjI impI; (elim conjE)?)
  assume h: "\<not> truthy_q (q_error q)" "strict_eq (q_state q) (oauthState s)"
    "preview (jsprop tokens ''access_token'') = Inr a"
    "preview (jsprop tokens ''refresh_token'') = Inr r"
  note eq = callback_success(1) [OF h(1,2) assms h(3,4)]
  show "oauthState (sess (callback cfg w q s)) = JUndefined"
    "codeVerifier (sess (callback cfg w q s)) = JUndefined"
    "accessToken (sess (callback cfg w q s)) = jsprop tokens ''access_token''"
    "refreshToken (sess (callback cfg w q s)) = jsprop tokens ''refresh_token''"
    by (simp_all add: eq tokens_kept_after_profile)
  assume "fetch w (profile_request cfg (jsprop tokens ''access_token'')) = Response st' (Some profile)"
    "ok st'" "\<not> nullish profile"
  then show "user (sess (callback cfg w q s)) = jsprop profile ''user''"
    by (simp add: eq fetch_profile_success [OF preview_stringifies [OF h(3)]])
next
  assume h: "\<not> (truthy_q (q_state q) \<and> \<not> strict_eq (q_state q) (oauthState s))"
  note eq = callback_popup_success(1) [OF h assms]
  show "oauthState (sess (callback_popup cfg w q s)) = JUndefined"
    "codeVerifier (sess (callback_popup cfg w q s)) = JUndefined"
    "accessToken (sess (callback_popup cfg w q s)) = jsprop tokens ''access_token''"
    "refreshToken (sess (callback_popup cfg w q s)) = jsprop tokens ''refresh_token''"
    by (simp_all add: eq tokens_kept_after_profile)
  assume "stringifies (jsprop tokens ''access_token'')"
    "fetch w (profile_request cfg (jsprop tokens ''access_token'')) = Response st' (Some profile)"
    "ok st'" "\<not> nullish profile"
  then show "user (sess (callback_popup cfg w q s)) = jsprop profile ''user''"
    by (simp add: eq fetch_profile_success)
qed

theorem successful_exchange_session_witness:
  "oauthState (sess (callback default_config world_ok
      (query_of (QString ''ABC123'') (QString ''00ff'') QUndefined) pending_redirect)) = JUndefined
   \<and> codeVerifier (sess (callback default_config world_ok
      (query_of (QString ''ABC123'') (QString ''00ff'') QUndefined) pending_redirect)) = JUndefined
   \<and> accessToken (sess (callback default_config world_ok
      (query_of (QString ''ABC123'') (QString ''00ff'') QUndefined) pending_redirect)) = JStr ''T1''
   \<and> refreshToken (sess (callback default_config world_ok
      (query_of (QString ''ABC123'') (QString ''00ff'') QUndefined) pending_redirect)) = JStr ''R1''
   \<and> user (sess (callback default_config world_ok
      (query_of (QString ''ABC123'') (QString ''00ff'') QUndefined) pending_redirect))
     = JObj [(''id'', JStr ''u1''), (''email'', JStr ''a@b.com'')]
   \<and> accessToken (sess (callback_popup default_config world_ok
      (query_of (QString ''ABC123'') (QString ''00ff'') QUndefined) pending_redirect)) = JStr ''T1''
   \<and> user (sess (callback_popup default_config world_ok
      (query_of (QString ''ABC123'') (QString ''00ff'') QUndefined) pending_redirect))
     = JObj [(''id'', JStr ''u1''), (''email'', JStr ''a@b.com'')]"
proof -
  let ?q = "query_of (QString ''ABC123'') (QString ''00ff'') QUndefined"
  have h1: "truthy (codeVerifier pending_redirect)"
    by (simp add: pending_redirect_def)
  have h2: "fetch world_ok
      (token_request default_config (js_of (q_code ?q)) (codeVerifier pending_redirect))
      = Response 200 (Some tokens_T1)"
    by (simp add: world_ok_def stub_world_def token_request_def default_config_def)
  have h3: "\<not> nullish tokens_T1"
    by (simp add: nullish_def tokens_T1_def)
  have h4: "\<not> truthy (jsprop tokens_T1 ''error'')"
    by (simp add: tokens_T1_def)
  have g1: "\<not> truthy_q (q_error ?q)" "strict_eq (q_state ?q) (oauthState pending_redirect)"
    by (simp_all add: query_of_def pending_redirect_def)
  have g2: "preview (jsprop tokens_T1 ''access_token'') = Inr ''T1...''"
    "preview (jsprop tokens_T1 ''refresh_token'') = Inr ''R1...''"
    "stringifies (jsprop tokens_T1 ''access_token'')"
    by (simp_all add: tokens_T1_def)
  have g3: "fetch world_ok (profile_request default_config (jsprop tokens_T1 ''access_token''))
      = Response 200 (Some profile_u1)"
    by (simp add: world_ok_def stub_world_def profile_request_def bearer_request_def
        default_config_def)
  have g4: "ok 200" "\<not> nullish profile_u1"
    by (simp_all add: ok_def nullish_def profile_u1_def)
  from successful_exchange_session
    [where a = "''T1...''" and r = "''R1...''" and st' = 200 and profile = profile_u1,
     OF h1 h2 h3 h4]
    g1 g2 g3 g4
  show ?thesis
    by (simp add: tokens_T1_def profile_u1_def)
qed

text \<open>
  The claim as stated promises the profile whenever the profile fetch returned a success
  status.  Below the profile endpoint answers the success status 204, which has no body:
  reading the body throws, the handlers answer their status 500 pages although the
  tokens are stored, and the session has no user.
\<close>

theorem success_status_without_profile:
  "fetch world_empty_profile (profile_request default_config (JStr ''T1'')) = Response 204 None
   \<and> ok 204
   \<and> resp (callback default_config world_empty_profile
        (query_of (QString ''ABC123'') (QString ''00ff'') QUndefined) pending_redirect)
      = Send 500 (Text [Lit ''Failed to exchange code for tokens''])
   \<and> accessToken (sess (callback default_config world_empty_profile
        (query_of (QString ''ABC123'') (QString ''00ff'') QUndefined) pending_redirect))
      = JStr ''T1''
   \<and> user (sess (callback default_config world_empty_profile
        (query_of (QString ''ABC123'') (QString ''00ff'') QUndefined) pending_redirect))
      = JUndefined
   \<and> resp (callback_popup default_config world_empty_profile
        (query_of (QString ''ABC123'') (QString ''00ff'') QUndefined) pending_redirect)
      = Send 500 (Text [Lit ''Token exchange failed''])
   \<and> user (sess (callback_popup default_config world_empty_profile
        (query_of (QString ''ABC123'') (QString ''00ff'') QUndefined) pending_redirect))
      = JUndefined"
  by (simp add: run_defs pending_redirect_def world_empty_profile_def tokens_T1_def)

text \<open>
  C7, as the code has it.  For every callback in which the token exchange succeeded and
  the profile fetch returned a status outside 200--299: the flow is not moved to the
  errored state but completes (\<open>/auth/callback\<close> with the popup completion page for a
  state ending in \<open>:popup\<close> and with the redirect to the home page otherwise,
  \<open>/auth/callback-popup\<close> with the redirect), the tokens of the response are in the
  session, and the session's \<open>user\<close> is left as it was before the callback: the callback
  caches no profile, and one cached by an earlier login stays.  The profile fetch is made
  when the access token converts to a string: the log line of \<open>/auth/callback\<close> has
  checked that it is a string or absent, \<open>/auth/callback-popup\<close> has not.
\<close>

theorem profile_failure_absorbed:
  assumes "truthy (codeVerifier s)"
    and "fetch w (token_request cfg (js_of (q_code q)) (codeVerifier s)) = Response st (Some tokens)"
    and "\<not> nullish tokens"
    and "\<not> truthy (jsprop tokens ''error'')"
    and "fetch w (profile_request cfg (jsprop tokens ''access_token'')) = Response st' b"
    and "\<not> ok st'"
  shows "(\<not> truthy_q (q_error q) \<and> strict_eq (q_state q) (oauthState s)
            \<and> ends_with_popup (q_state q) = Inr isPopup
            \<and> preview (jsprop tokens ''access_token'') = Inr a
            \<and> preview (jsprop tokens ''refresh_token'') = Inr r \<longrightarrow>
            resp (callback cfg w q s)
              = (if isPopup then Send 200 AuthorizationComplete else Redirect (Path ''/''))
          \<and> accessToken (sess (callback cfg w q s)) = jsprop tokens ''access_token''
          \<and> refreshToken (sess (callback cfg w q s)) = jsprop tokens ''refresh_token''
          \<and> user (sess (callback cfg w q s)) = user s)
       \<and> (\<not> (truthy_q (q_state q) \<and> \<not> strict_eq (q_state q) (oauthState s))
            \<and> stringifies (jsprop tokens ''access_token'') \<longrightarrow>
            resp (callback_popup cfg w q s) = Redirect (Path ''/'')
          \<and> accessToken (sess (callback_popup cfg w q s)) = jsprop tokens ''access_token''
          \<and> refreshToken (sess (callback_popup cfg w q s)) = jsprop tokens ''refresh_token''
          \<and> user (sess (callback_popup cfg w q s)) = user s)"
proof (intro conjI impI; (elim conjE)?)
  assume h: "\<not> truthy_q (q_error q)" "strict_eq (q_state q) (oauthState s)"
    "ends_with_popup (q_state q) = Inr isPopup"
    "preview (jsprop tokens ''access_token'') = Inr a"
    "preview (jsprop tokens ''refresh_token'') = Inr r"
  note fp = fetch_profile_failure [OF preview_stringifies [OF h(4)] assms(5,6)]
  note eq = callback_success [OF h(1,2) assms(1-4) h(4,5)]
  show "resp (callback cfg w q s)
      = (if isPopup then Send 200 AuthorizationComplete else Redirect (Path ''/''))"
    by (simp add: eq(2) [OF h(3)] fp)
  show "accessToken (sess (callback cfg w q s)) = jsprop tokens ''access_token''"
    "refreshToken (sess (callback cfg w q s)) = jsprop tokens ''refresh_token''"
    "user (sess (callback cfg w q s)) = user s"
    by (simp_all add: eq(1) fp store_tokens_fields)
next
  assume h: "\<not> (truthy_q (q_state q) \<and> \<not> strict_eq (q_state q) (oauthState s))"
    and str: "stringifies (jsprop tokens ''access_token'')"
  note fp = fetch_profile_failure [OF str assms(5,6)]
  note eq = callback_popup_success [OF h assms(1-4)]
  show "resp (callback_popup cfg w q s) = Redirect (Path ''/'')"
    by (simp add: eq(2) fp)
  show "accessToken (sess (callback_popup cfg w q s)) = jsprop tokens ''access_token''"
    "refreshToken (sess (callback_popup cfg w q s)) = jsprop tokens ''refresh_token''"
    "user (sess (callback_popup cfg w q s)) = user s"
    by (simp_all add: eq(1) fp store_tokens_fields)
qed

theorem profile_failure_absorbed_witness:
  "resp (callback default_config world_no_profile
      (query_of (QString ''ABC123'') (QString ''00ff:popup'') QUndefined) pending_popup)
     = Send 200 AuthorizationComplete
   \<and> accessToken (sess (callback default_config world_no_profile
      (query_of (QString ''ABC123'') (QString ''00ff:popup'') QUndefined) pending_popup))
     = JStr ''T1''
   \<and> user (sess (callback default_config world_no_profile
      (query_of (QString ''ABC123'') (QString ''00ff:popup'') QUndefined) pending_popup))
     = JUndefined
   \<and> resp (callback_popup default_config world_no_profile
      (query_of (QString ''ABC123'') (QString ''00ff:popup'') QUndefined) pending_popup)
     = Redirect (Path ''/'')
   \<and> refreshToken (sess (callback_popup default_config world_no_profile
      (query_of (QString ''ABC123'') (QString ''00ff:popup'') QUndefined) pending_popup))
     = JStr ''R1''
   \<and> user (sess (callback_popup default_config world_no_profile
      (query_of (QString ''ABC123'') (QString ''00ff:popup'') QUndefined) pending_popup))
     = JUndefined"
proof -
  let ?q = "query_of (QString ''ABC123'') (QString ''00ff:popup'') QUndefined"
  have h1: "truthy (codeVerifier pending_popup)"
    by (simp add: pending_popup_def)
  have h2: "fetch world_no_profile
      (token_request default_config (js_of (q_code ?q)) (codeVerifier pending_popup))
      = Response 200 (Some tokens_T1)"
    by (simp add: world_no_profile_def stub_world_def token_request_def default_config_def)
  have h3: "\<not> nullish tokens_T1"
    by (simp add: nullish_def tokens_T1_def)
  have h4: "\<not> truthy (jsprop tokens_T1 ''error'')"
    by (simp add: tokens_T1_def)
  have h5: "fetch world_no_profile (profile_request default_config (jsprop tokens_T1 ''access_token''))
      = Response 403 None"
    by (simp add: world_no_profile_def stub_world_def profile_request_def bearer_request_def
        default_config_def)
  have h6: "\<not> ok 403"
    by (simp add: ok_def)
  have g1: "\<not> truthy_q (q_error ?q)" "strict_eq (q_state ?q) (oauthState pending_popup)"
    "ends_with_popup (q_state ?q) = Inr True"
    by (simp_all add: query_of_def pending_popup_def endsWith_def)
  have g2: "preview (jsprop tokens_T1 ''access_token'') = Inr ''T1...''"
    "preview (jsprop tokens_T1 ''refresh_token'') = Inr ''R1...''"
    "stringifies (jsprop tokens_T1 ''access_token'')"
    by (simp_all add: tokens_T1_def)
  from profile_failure_absorbed
    [where a = "''T1...''" and r = "''R1...''" and isPopup = True, OF h1 h2 h3 h4 h5 h6]
    g1 g2
  show ?thesis
    by (simp add: tokens_T1_def pending_popup_def)
qed

text \<open>
  The claim as stated promises no cached profile.  On a session that already holds the
  profile of an earlier login, the callback below completes with the new tokens and the
  old profile still cached.
\<close>

theorem stale_profile_kept:
  "resp (callback default_config world_no_profile
      (query_of (QString ''ABC123'') (QString ''00ff'') QUndefined) relogin_session)
     = Redirect (Path ''/'')
   \<and> accessToken (sess (callback default_config world_no_profile
      (query_of (QString ''ABC123'') (QString ''00ff'') QUndefined) relogin_session))
     = JStr ''T1''
   \<and> user (sess (callback default_config world_no_profile
      (query_of (QString ''ABC123'') (QString ''00ff'') QUndefined) relogin_session))
     = JObj [(''id'', JStr ''u0'')]
   \<and> user (sess (callback default_config world_no_profile
      (query_of (QString ''ABC123'') (QString ''00ff'') QUndefined) relogin_session))
     \<noteq> JUndefined"
  by (simp add: run_defs relogin_session_def world_no_profile_def tokens_T1_def)

text \<open>
  C10, as the code has it.  For every callback in which the body the token endpoint
  answers has a truthy \<open>error\<close> property, the handler leaves the session as it was, every
  property of it: no token and no profile is written, and the pending \<open>oauthState\<close> and
  \<open>codeVerifier\<close> stay in place.
\<close>

theorem token_error_session_unchanged:
  assumes "fetch w (token_request cfg (js_of (q_code q)) (codeVerifier s)) = Response st (Some tokens)"
    and "truthy (jsprop tokens ''error'')"
  shows "sess (callback cfg w q s) = s \<and> sess (callback_popup cfg w q s) = s"
  using assms
  by (auto simp: callback_def callback_popup_def template_def Let_def
      callback_try_token_error callback_popup_try_token_error split: sum.splits)

theorem token_error_session_unchanged_witness:
  "fetches (events (callback default_config world_token_error
      (query_of (QString ''ABC123'') (QString ''00ff:popup'') QUndefined) pending_popup))
     = [token_request default_config (JStr ''ABC123'') (JStr ''verifier'')]
   \<and> sess (callback default_config world_token_error
      (query_of (QString ''ABC123'') (QString ''00ff:popup'') QUndefined) pending_popup)
     = \<lparr> oauthState = JStr ''00ff:popup'', codeVerifier = JStr ''verifier'',
         accessToken = JUndefined, refreshToken = JUndefined, user = JUndefined \<rparr>
   \<and> fetches (events (callback_popup default_config world_token_error
      (query_of (QString ''ABC123'') (QString ''00ff:popup'') QUndefined) pending_popup))
     = [token_request default_config (JStr ''ABC123'') (JStr ''verifier'')]
   \<and> sess (callback_popup default_config world_token_error
      (query_of (QString ''ABC123'') (QString ''00ff:popup'') QUndefined) pending_popup)
     = \<lparr> oauthState = JStr ''00ff:popup'', codeVerifier = JStr ''verifier'',
         accessToken = JUndefined, refreshToken = JUndefined, user = JUndefined \<rparr>"
proof -
  let ?q = "query_of (QString ''ABC123'') (QString ''00ff:popup'') QUndefined"
  have h1: "fetch world_token_error
      (token_request default_config (js_of (q_code ?q)) (codeVerifier pending_popup))
      = Response 400 (Some invalid_grant)"
    by (simp add: world_token_error_def stub_world_def token_request_def default_config_def)
  have h2: "truthy (jsprop invalid_grant ''error'')"
    by (simp add: invalid_grant_def)
  have f: "fetches (events (callback default_config world_token_error ?q pending_popup))
      = [token_request default_config (JStr ''ABC123'') (JStr ''verifier'')]"
    "fetches (events (callback_popup default_config world_token_error ?q pending_popup))
      = [token_request default_config (JStr ''ABC123'') (JStr ''verifier'')]"
    by (simp_all add: run_defs pending_popup_def world_token_error_def invalid_grant_def)
  from token_error_session_unchanged [OF h1 h2] f show ?thesis
    by (simp add: pending_popup_def)
qed

text \<open>
  The claim as stated speaks of a response that contains an \<open>error\<close> field.  The body
  below contains one, \<open>null\<close>, beside the tokens: both handlers consume the pending
  authorization and write the tokens and the profile.
\<close>

theorem null_error_field_consumes_pending:
  "jsprop null_error_body ''error'' = JNull
   \<and> oauthState pending_redirect = JStr ''00ff''
   \<and> oauthState (sess (callback default_config world_null_error
        (query_of (QString ''ABC123'') (QString ''00ff'') QUndefined) pending_redirect))
      = JUndefined
   \<and> codeVerifier (sess (callback default_config world_null_error
        (query_of (QString ''ABC123'') (QString ''00ff'') QUndefined) pending_redirect))
      = JUndefined
   \<and> accessToken (sess (callback default_config world_null_error
        (query_of (QString ''ABC123'') (QString ''00ff'') QUndefined) pending_redirect))
      = JStr ''T1''
   \<and> user (sess (callback default_config world_null_error
        (query_of (QString ''ABC123'') (QString ''00ff'') QUndefined) pending_redirect))
      = JObj [(''id'', JStr ''u1''), (''email'', JStr ''a@b.com'')]
   \<and> sess (callback_popup default_config world_null_error
        (query_of (QString ''ABC123'') (QString ''00ff'') QUndefined) pending_redirect)
      \<noteq> pending_redirect"
  by (simp add: run_defs pending_redirect_def world_null_error_def null_error_body_def
      profile_u1_def)

section \<open>The claim about the resource proxy\<close>

text \<open>
  C9, as the code has it.  For every request to \<open>/api/organizations\<close>: when the session
  holds no access token (none, or an empty one), the handler answers status 401 with the
  error \<open>Not authenticated\<close> and fetches nothing; when it holds one that converts to a
  string, the handler makes one call, to the organizations endpoint with the header
  \<open>Authorization: Bearer <token>\<close>, and answers with the JSON body that call returned.
\<close>

theorem organizations_requires_token:
  "(\<not> truthy (accessToken s) \<longrightarrow>
      api_organizations cfg w s =
        \<lparr> resp = Json 401 (JObj [(''error'', JStr ''Not authenticated'')]),
          sess = s, events = [] \<rparr>)
   \<and> (truthy (accessToken s) \<and> stringifies (accessToken s) \<longrightarrow>
        fetches (events (api_organizations cfg w s)) =
          [\<lparr> req_url = INSFORGE_URL cfg @ ''/organizations/v1'', req_method = ''GET'',
             req_headers = [(''Authorization'', [Lit ''Bearer '', Interp (accessToken s)])],
             req_body = None \<rparr>]
      \<and> (fetch w (organizations_request cfg (accessToken s)) = Response st (Some data) \<longrightarrow>
            resp (api_organizations cfg w s) = Json 200 data))"
  by (auto simp: api_organizations_def organizations_request_def bearer_request_def
      template_def bearer_header_def Let_def
      split: fetch_result.splits option.splits)

theorem organizations_requires_token_witness:
  "api_organizations default_config world_ok empty_session
     = \<lparr> resp = Json 401 (JObj [(''error'', JStr ''Not authenticated'')]),
         sess = empty_session, events = [] \<rparr>
   \<and> fetches (events (api_organizations default_config world_ok logged_in))
     = [\<lparr> req_url = ''http://localhost:3000/organizations/v1'', req_method = ''GET'',
          req_headers = [(''Authorization'', [Lit ''Bearer '', Interp (JStr ''T1'')])],
          req_body = None \<rparr>]
   \<and> resp (api_organizations default_config world_ok logged_in)
     = Json 200 (JObj [(''organizations'', JArr [JObj [(''id'', JStr ''o1'')]])])"
proof -
  have h1: "\<not> truthy (accessToken empty_session)"
    by (simp add: empty_session_def)
  have h2: "truthy (accessToken logged_in)" "stringifies (accessToken logged_in)"
    by (simp_all add: logged_in_def)
  have h3: "fetch world_ok (organizations_request default_config (accessToken logged_in))
      = Response 200 (Some organizations_body)"
    by (simp add: world_ok_def stub_world_def organizations_request_def bearer_request_def
        default_config_def)
  from organizations_requires_token [of empty_session default_config world_ok]
    organizations_requires_token [of logged_in default_config world_ok 200 organizations_body]
    h1 h2 h3
  show ?thesis
    by (simp add: logged_in_def default_config_def organizations_body_def)
qed

text \<open>
  The claim as stated promises the call whenever a token is present.  The session below
  is the one \<open>/auth/callback-popup\<close> leaves when the token endpoint answers the access
  token \<open>{"toString": 1}\<close>; its token is present, building the header throws, and the
  handler answers status 500 without calling the organizations endpoint.
\<close>

theorem organizations_unprintable_token:
  "sess (callback_popup default_config world_object_token
      (query_of (QString ''ABC123'') (QString ''00ff:popup'') QUndefined) pending_popup)
     = object_token_session
   \<and> truthy (accessToken object_token_session)
   \<and> api_organizations default_config world_object_token object_token_session
     = \<lparr> resp = Json 500 (JObj [(''error'', JStr ''Failed to fetch organizations'')]),
         sess = object_token_session,
         events = [ConsoleErrorExn ''API call failed:'' TypeError] \<rparr>
   \<and> fetches (events (api_organizations default_config world_object_token object_token_session))
     = []"
  by (simp add: run_defs pending_popup_def world_object_token_def object_token_session_def)

section \<open>The claims about starting the flow\<close>

text \<open>
  C5.  For every flow start, \<open>/auth/login\<close> and \<open>/auth/login-popup\<close> (the authorization
  endpoint being a URL the parser accepts): the handler redirects to a URL whose query
  parameters (\<open>redirect_param\<close>) are \<open>response_type=code\<close>, \<open>code_challenge_method=S256\<close>, a \<open>code_challenge\<close>
  equal to \<open>generateCodeChallenge\<close> of the verifier now stored in the session, the
  configured \<open>client_id\<close>, \<open>redirect_uri\<close> and \<open>scope\<close>, and the \<open>state\<close> now stored in
  the session.
\<close>

theorem authorization_redirect_parameters:
  assumes "new_URL w (INSFORGE_URL cfg @ ''/api/oauth/v1/authorize'') = Some u0"
  shows "codeVerifier (sess (login cfg w rv rs s)) = JStr (generateCodeVerifier rv)
       \<and> oauthState (sess (login cfg w rv rs s)) = JStr (generateState rs)
       \<and> redirect_param (resp (login cfg w rv rs s)) ''response_type'' = Some ''code''
       \<and> redirect_param (resp (login cfg w rv rs s)) ''code_challenge_method'' = Some ''S256''
       \<and> redirect_param (resp (login cfg w rv rs s)) ''code_challenge''
            = Some (generateCodeChallenge (generateCodeVerifier rv))
       \<and> redirect_param (resp (login cfg w rv rs s)) ''client_id''
            = Some (INSFORGE_CLIENT_ID cfg)
       \<and> redirect_param (resp (login cfg w rv rs s)) ''redirect_uri'' = Some (CALLBACK_URL cfg)
       \<and> redirect_param (resp (login cfg w rv rs s)) ''scope'' = Some (SCOPES cfg)
       \<and> redirect_param (resp (login cfg w rv rs s)) ''state'' = Some (generateState rs)
       \<and> codeVerifier (sess (login_popup cfg w rv rs s)) = JStr (generateCodeVerifier rv)
       \<and> oauthState (sess (login_popup cfg w rv rs s)) = JStr (generateState rs @ '':popup'')
       \<and> redirect_param (resp (login_popup cfg w rv rs s)) ''response_type'' = Some ''code''
       \<and> redirect_param (resp (login_popup cfg w rv rs s)) ''code_challenge_method''
            = Some ''S256''
       \<and> redirect_param (resp (login_popup cfg w rv rs s)) ''code_challenge''
            = Some (generateCodeChallenge (generateCodeVerifier rv))
       \<and> redirect_param (resp (login_popup cfg w rv rs s)) ''client_id''
            = Some (INSFORGE_CLIENT_ID cfg)
       \<and> redirect_param (resp (login_popup cfg w rv rs s)) ''redirect_uri''
            = Some (CALLBACK_URL cfg)
       \<and> redirect_param (resp (login_popup cfg w rv rs s)) ''scope'' = Some (SCOPES cfg)
       \<and> redirect_param (resp (login_popup cfg w rv rs s)) ''state''
            = Some (generateState rs @ '':popup'')"
  by (simp add: login_def login_popup_def Let_def start_flow_redirect [OF assms]
      redirect_param_def authorize_params_get)

theorem authorization_redirect_parameters_witness:
  "new_URL world_ok (INSFORGE_URL default_config @ ''/api/oauth/v1/authorize'')
     = Some \<lparr> href_base = ''http://localhost:3000/api/oauth/v1/authorize'',
              searchParams = [], fragment = [] \<rparr>
   \<and> codeVerifier (sess (login default_config world_ok [0, 1, 2] [0, 255] empty_session))
       = JStr ''AAEC''
   \<and> redirect_param (resp (login default_config world_ok [0, 1, 2] [0, 255] empty_session))
         ''code_challenge''
       = Some (generateCodeChallenge ''AAEC'')
   \<and> redirect_param (resp (login default_config world_ok [0, 1, 2] [0, 255] empty_session))
         ''code_challenge_method''
       = Some ''S256''
   \<and> redirect_param (resp (login default_config world_ok [0, 1, 2] [0, 255] empty_session))
         ''response_type''
       = Some ''code''
   \<and> redirect_param (resp (login default_config world_ok [0, 1, 2] [0, 255] empty_session))
         ''state''
       = Some ''00ff''
   \<and> redirect_param (resp (login_popup default_config world_ok [0, 1, 2] [0, 255] empty_session))
         ''state''
       = Some ''00ff:popup''
   \<and> oauthState (sess (login_popup default_config world_ok [0, 1, 2] [0, 255] empty_session))
       = JStr ''00ff:popup''"
proof -
  have h: "new_URL world_ok (INSFORGE_URL default_config @ ''/api/oauth/v1/authorize'')
     = Some \<lparr> href_base = ''http://localhost:3000/api/oauth/v1/authorize'',
              searchParams = [], fragment = [] \<rparr>"
    by (simp add: world_ok_def stub_world_def default_config_def)
  have v: "generateCodeVerifier [0, 1, 2] = ''AAEC''"
    by (simp add: generateCodeVerifier_def b64u_def base64url_alphabet_def)
  have st: "generateState [0, 255] = ''00ff''"
    by (simp add: generateState_def to_hex_def hex_digit_def)
  from authorization_redirect_parameters
    [OF h, of "[0, 1, 2]" "[0, 255]" empty_session]
  show ?thesis
    unfolding v st using h by simp
qed

text \<open>
  C6.  For every state token: \<open>/auth/login\<close> stores the raw nonce,
  \<open>/auth/login-popup\<close> the nonce followed by \<open>:popup\<close>; the nonce is hexadecimal, so the
  delimiter \<open>:\<close> does not occur in it, and the suffix test of the callback tells the two
  apart exactly: false on every redirect-mode state, true on every popup-mode state.
\<close>

theorem state_mode_recovered:
  "oauthState (sess (login cfg w rv rs s)) = JStr (generateState rs)
   \<and> oauthState (sess (login_popup cfg w rv rs s)) = JStr (generateState rs @ '':popup'')
   \<and> CHR '':'' \<notin> set (generateState rs)
   \<and> ends_with_popup (QString (generateState rs)) = Inr False
   \<and> ends_with_popup (QString (generateState rs @ '':popup'')) = Inr True"
  by (simp add: login_def login_popup_def Let_def start_flow_session generateState_def
      colon_not_hex hex_not_popup endsWith_append)

theorem state_mode_recovered_witness:
  "oauthState (sess (login default_config world_ok [0, 1, 2] [0, 255] empty_session))
     = JStr ''00ff''
   \<and> oauthState (sess (login_popup default_config world_ok [0, 1, 2] [0, 255] empty_session))
     = JStr ''00ff:popup''
   \<and> ends_with_popup (QString ''00ff'') = Inr False
   \<and> ends_with_popup (QString ''00ff:popup'') = Inr True"
proof -
  have st: "generateState [0, 255] = ''00ff''"
    by (simp add: generateState_def to_hex_def hex_digit_def)
  from state_mode_recovered [of default_config world_ok "[0, 1, 2]" "[0, 255]" empty_session]
  show ?thesis
    unfolding st by simp
qed

text \<open>
  C8.  \<open>generateCodeChallenge\<close> is a function of the verifier alone (it reads no state
  and draws no randomness, so equal verifiers give equal challenges); its value is the
  SHA-256 digest of the verifier in URL-safe base64 without padding, as the specification
  words it; and the encoding loses nothing, so two verifiers have the same challenge
  exactly when their SHA-256 digests coincide.
\<close>

theorem challenge_is_encoded_digest:
  "generateCodeChallenge v = spec_deriveChallenge v
   \<and> (generateCodeChallenge v = generateCodeChallenge v') = (sha256 (utf8 v) = sha256 (utf8 v'))"
proof -
  have "generateCodeChallenge v = spec_deriveChallenge v"
    by (simp add: generateCodeChallenge_def spec_deriveChallenge_def base64url_refines)
  moreover have "(generateCodeChallenge v = generateCodeChallenge v')
      = (sha256 (utf8 v) = sha256 (utf8 v'))"
    unfolding generateCodeChallenge_def by (auto dest: base64url_inj)
  ultimately show ?thesis by simp
qed

theorem challenge_is_encoded_digest_witness:
  "generateCodeChallenge ''dBjftJeZ4CVP-mB92K27uhbUJU1p1r_wW1gFWFOEjXk''
     = ''E9Melhoa2OwvFrEMTJguCHaoeK1t8URWbuGJSstw-cM''
   \<and> spec_deriveChallenge ''dBjftJeZ4CVP-mB92K27uhbUJU1p1r_wW1gFWFOEjXk''
     = ''E9Melhoa2OwvFrEMTJguCHaoeK1t8URWbuGJSstw-cM''
   \<and> generateCodeChallenge ''abc''
     \<noteq> generateCodeChallenge ''dBjftJeZ4CVP-mB92K27uhbUJU1p1r_wW1gFWFOEjXk''"
proof -
  let ?v = "''dBjftJeZ4CVP-mB92K27uhbUJU1p1r_wW1gFWFOEjXk''"
  have d: "sha256 (utf8 ''abc'') \<noteq> sha256 (utf8 ?v)"
  proof
    assume "sha256 (utf8 ''abc'') = sha256 (utf8 ?v)"
    then have "to_hex (sha256 (utf8 ''abc'')) = to_hex (sha256 (utf8 ?v))"
      by simp
    then show False
      by (simp add: abc_digest rfc7636_digest)
  qed
  have a: "generateCodeChallenge ?v = spec_deriveChallenge ?v"
    by (rule challenge_is_encoded_digest [THEN conjunct1])
  have s: "spec_deriveChallenge ?v = ''E9Melhoa2OwvFrEMTJguCHaoeK1t8URWbuGJSstw-cM''"
    unfolding a [symmetric] by (rule rfc7636_challenge)
  have "(generateCodeChallenge ''abc'' = generateCodeChallenge ?v)
      = (sha256 (utf8 ''abc'') = sha256 (utf8 ?v))"
    by (rule challenge_is_encoded_digest [THEN conjunct2])
  with d have c: "generateCodeChallenge ''abc'' \<noteq> generateCodeChallenge ?v"
    by simp
  from rfc7636_challenge s c show ?thesis
    by blast
qed

end
